theory Spec2Isabelle
  imports Main "HOL-Library.AList"
begin

section \<open>Values, errors and configuration\<close>

text \<open>
  The functions of the module \<^verbatim>\<open>transmeta/__init__.py\<close> are embedded one by one, under
  their own names; \<^verbatim>\<open>get_all_translatable_fields\<close> and the string methods of
  \<^verbatim>\<open>LazyString\<close> are left out. Python values that an attribute of a model instance can hold
  are the constructors of \<open>pyval\<close>; the truth value Python gives them in an \<^verbatim>\<open>if\<close> is
  \<open>truthy\<close>.
\<close>

datatype pyval = PNone | PStr string | PInt int | PBool bool

fun truthy :: "pyval \<Rightarrow> bool" where
  "truthy PNone = False"
| "truthy (PStr s) = (s \<noteq> [])"
| "truthy (PInt i) = (i \<noteq> 0)"
| "truthy (PBool b) = b"

text \<open>
  The exceptions the module can raise or run into: \<^verbatim>\<open>ImproperlyConfigured\<close> with its
  message, \<^verbatim>\<open>AttributeError\<close> with the name of the attribute that is missing, and
  \<^verbatim>\<open>TypeError\<close> with the operation that the value does not support.
\<close>

datatype error = ImproperlyConfigured string | AttributeError string | TypeError string

text \<open>
  \<^verbatim>\<open>django.conf.settings\<close>, as far as the module reads it. A setting the module reads with
  \<^verbatim>\<open>getattr(settings, name, default)\<close> may be absent and is an option. Language codes are
  strings. The result of the call \<^verbatim>\<open>get_language()\<close> of \<^verbatim>\<open>django.utils.translation\<close> is
  the argument \<open>active\<close> of every function that can make it: \<open>Some cur\<close> for the code
  \<open>cur\<close> of the language that is active, \<open>None\<close> for \<^verbatim>\<open>None\<close>, which the framework returns
  when no language is active.
\<close>

record settings =
  LANGUAGES :: "(string \<times> string) list"
  TRANSMETA_LANGUAGES :: "(string \<times> string) list option"
  LANGUAGE_CODE :: string
  TRANSMETA_DEFAULT_LANGUAGE :: "string option"
  TRANSMETA_MANDATORY_LANGUAGE :: "string option"

definition get_languages :: "settings \<Rightarrow> (string \<times> string) list" where
  "get_languages st =
     (case TRANSMETA_LANGUAGES st of Some ls \<Rightarrow> ls | None \<Rightarrow> LANGUAGES st)"

definition fallback_language :: "settings \<Rightarrow> string" where
  "fallback_language st =
     (case TRANSMETA_DEFAULT_LANGUAGE st of Some l \<Rightarrow> l | None \<Rightarrow> LANGUAGE_CODE st)"

definition mandatory_language :: "settings \<Rightarrow> string" where
  "mandatory_language st =
     (case TRANSMETA_MANDATORY_LANGUAGE st of Some l \<Rightarrow> l | None \<Rightarrow> fallback_language st)"

section \<open>Field names\<close>

text \<open>
  \<^verbatim>\<open>s.split(c)\<close> for a separator of one character: the pieces of \<open>s\<close> between the
  occurrences of \<open>c\<close>, never an empty list (\<^verbatim>\<open>''.split('-') == ['']\<close>).
\<close>

fun split_on :: "char \<Rightarrow> string \<Rightarrow> string list" where
  "split_on c [] = [[]]"
| "split_on c (x # xs) =
     (if x = c then [] # split_on c xs
      else (case split_on c xs of
              [] \<Rightarrow> [[x]]
            | w # ws \<Rightarrow> (x # w) # ws))"

text \<open>
  \<^verbatim>\<open>get_real_fieldname(field, lang=None)\<close>: without a language, the active one up to its
  first hyphen (\<^verbatim>\<open>get_language().split('-')[0]\<close>), and \<^verbatim>\<open>AttributeError\<close> when
  \<^verbatim>\<open>get_language()\<close> is \<^verbatim>\<open>None\<close>, which has no \<^verbatim>\<open>split\<close>.
\<close>

definition get_real_fieldname :: "string option \<Rightarrow> string \<Rightarrow> string option \<Rightarrow> error + string" where
  "get_real_fieldname active field lang =
     (case lang of
        None \<Rightarrow>
          (case active of
             None \<Rightarrow> Inl (AttributeError ''split'')
           | Some cur \<Rightarrow> Inr (field @ ''_'' @ hd (split_on (CHR ''-'') cur)))
      | Some l \<Rightarrow> Inr (field @ ''_'' @ l))"

text \<open>\<^verbatim>\<open>real_field.split('_')[-1]\<close>\<close>

definition get_field_language :: "string \<Rightarrow> string" where
  "get_field_language real_field = last (split_on (CHR ''_'') real_field)"

definition get_fallback_fieldname :: "settings \<Rightarrow> string option \<Rightarrow> string \<Rightarrow> error + string" where
  "get_fallback_fieldname st active field =
     get_real_fieldname active field (Some (fallback_language st))"

definition get_mandatory_fieldname :: "settings \<Rightarrow> string option \<Rightarrow> string \<Rightarrow> error + string" where
  "get_mandatory_fieldname st active field =
     get_real_fieldname active field (Some (mandatory_language st))"

text \<open>
  The list comprehension of \<^verbatim>\<open>get_real_fieldname_in_each_language\<close>, over the entries of
  a catalog; an entry is a pair, and \<^verbatim>\<open>lang[LANGUAGE_CODE]\<close> is its first component.
\<close>

fun real_fieldnames :: "string option \<Rightarrow> string \<Rightarrow> (string \<times> string) list \<Rightarrow> error + string list" where
  "real_fieldnames active field [] = Inr []"
| "real_fieldnames active field (lang # langs) =
     (case get_real_fieldname active field (Some (fst lang)) of
        Inl e \<Rightarrow> Inl e
      | Inr n \<Rightarrow>
          (case real_fieldnames active field langs of
             Inl e \<Rightarrow> Inl e
           | Inr ns \<Rightarrow> Inr (n # ns)))"

definition get_real_fieldname_in_each_language ::
    "settings \<Rightarrow> string option \<Rightarrow> string \<Rightarrow> error + string list" where
  "get_real_fieldname_in_each_language st active field =
     real_fieldnames active field (get_languages st)"

section \<open>The accessor of a translatable field\<close>

text \<open>
  A model instance is the map from the names of its attributes to their values.
  \<^verbatim>\<open>getattr(self, n, None)\<close> is \<open>getattr_default\<close>; \<^verbatim>\<open>getattr(self, n)\<close> raises
  \<^verbatim>\<open>AttributeError\<close> on a name that is not bound, and is \<open>getattr_raise\<close>.
\<close>

type_synonym obj = "string \<rightharpoonup> pyval"

definition getattr_default :: "obj \<Rightarrow> string \<Rightarrow> pyval \<Rightarrow> pyval" where
  "getattr_default self n d = (case self n of None \<Rightarrow> d | Some v \<Rightarrow> v)"

definition getattr_raise :: "obj \<Rightarrow> string \<Rightarrow> error + pyval" where
  "getattr_raise self n = (case self n of None \<Rightarrow> Inl (AttributeError n) | Some v \<Rightarrow> Inr v)"

text \<open>
  \<^verbatim>\<open>default_value(field)\<close> returns the closure \<^verbatim>\<open>default_value_func\<close>; the closure applied
  to an instance is \<open>default_value_func st active field self\<close>. Every call
  \<^verbatim>\<open>attname(x)\<close> is evaluated before the \<^verbatim>\<open>getattr\<close> it is an argument of, so what it raises
  is not caught by the default of \<^verbatim>\<open>getattr\<close>. \<^verbatim>\<open>get_language()[:2]\<close> is \<open>two\<close>: a
  \<^verbatim>\<open>TypeError\<close> when \<^verbatim>\<open>get_language()\<close> is \<^verbatim>\<open>None\<close>.
\<close>

definition default_value_func ::
    "settings \<Rightarrow> string option \<Rightarrow> string \<Rightarrow> obj \<Rightarrow> error + pyval" where
  "default_value_func st active field self =
     (let attname = (\<lambda>x. get_real_fieldname active field x);
          two = (case active of
                   None \<Rightarrow> Inl (TypeError ''[:2]'')
                 | Some cur \<Rightarrow> Inr (Some (take 2 cur)))
      in
      case attname active of
        Inl e \<Rightarrow> Inl e
      | Inr n1 \<Rightarrow>
          if truthy (getattr_default self n1 PNone) then
            (case attname active of Inl e \<Rightarrow> Inl e | Inr n \<Rightarrow> getattr_raise self n)
          else
            (case two of
               Inl e \<Rightarrow> Inl e
             | Inr x2 \<Rightarrow>
                 (case attname x2 of
                    Inl e \<Rightarrow> Inl e
                  | Inr n2 \<Rightarrow>
                      if truthy (getattr_default self n2 PNone) then
                        (case attname x2 of Inl e \<Rightarrow> Inl e | Inr n \<Rightarrow> getattr_raise self n)
                      else
                        (let default_language = fallback_language st in
                         case attname (Some default_language) of
                           Inl e \<Rightarrow> Inl e
                         | Inr n3 \<Rightarrow>
                             if truthy (getattr_default self n3 PNone) then
                               (case attname (Some default_language) of
                                  Inl e \<Rightarrow> Inl e
                                | Inr n \<Rightarrow> Inr (getattr_default self n PNone))
                             else
                               (case attname (Some (LANGUAGE_CODE st)) of
                                  Inl e \<Rightarrow> Inl e
                                | Inr n4 \<Rightarrow> Inr (getattr_default self n4 PNone))))))"

definition default_value ::
    "settings \<Rightarrow> string option \<Rightarrow> string \<Rightarrow> obj \<Rightarrow> error + pyval" where
  "default_value st active field = default_value_func st active field"

text \<open>
  The resolution order in the specification's words: the four names of the chain, and the
  first value of the chain that is truthy, the last one when none is.
\<close>

definition resolution_order :: "settings \<Rightarrow> string \<Rightarrow> string \<Rightarrow> string list" where
  "resolution_order st cur field =
     [field @ ''_'' @ cur,
      field @ ''_'' @ take 2 cur,
      field @ ''_'' @ fallback_language st,
      field @ ''_'' @ LANGUAGE_CODE st]"

fun first_truthy :: "pyval list \<Rightarrow> pyval" where
  "first_truthy [] = PNone"
| "first_truthy [v] = v"
| "first_truthy (v # vs) = (if truthy v then v else first_truthy vs)"

section \<open>Fields and class attributes\<close>

text \<open>
  The text of \<^verbatim>\<open>verbose_name\<close>: the declared one, or the declared one decorated with a
  language label by \<^verbatim>\<open>LazyString(proxy, lang)\<close>. The label goes through
  \<^verbatim>\<open>ugettext_lazy\<close>, which is kept as the label itself.
\<close>

datatype verbose = Plain pyval | LazyString verbose string

text \<open>
  A field object of the framework, with the attributes the module reads or writes.
  \<open>field_class\<close> and \<open>field_options\<close> stand for everything else \<^verbatim>\<open>copy.copy\<close> carries
  over. \<open>default_attr = None\<close> is \<^verbatim>\<open>NOT_PROVIDED\<close>; \<open>verbose_name = None\<close> and
  \<open>original_fieldname = None\<close> say that the object has no such attribute;
  \<open>name_attr = None\<close> is a name that is \<^verbatim>\<open>None\<close>.
\<close>

record field =
  field_class :: string
  field_options :: "(string \<times> pyval) list"
  null_attr :: bool
  blank_attr :: bool
  default_attr :: "pyval option"
  verbose_name :: "verbose option"
  original_fieldname :: "string option"
  name_attr :: "string option"


text \<open>
  The value of an attribute of the inner class \<^verbatim>\<open>Meta\<close>: a tuple of names, a list of names,
  or another value. What a class body binds a name to: a field, the class \<^verbatim>\<open>Meta\<close> with
  the attributes of its own body, the property \<^verbatim>\<open>property(default_value(field))\<close>, or
  another value. The attribute mapping is an \<^verbatim>\<open>OrderedDict\<close>: an association list, read
  with \<open>map_of\<close>, written with \<open>AList.update\<close> (in place for a key that is bound, at the
  end otherwise) and \<open>AList.delete\<close>.
\<close>

datatype metaval = MTuple "string list" | MList "string list" | MVal pyval

datatype attr =
    FieldAttr field
  | MetaAttr "(string \<times> metaval) list"
  | PropertyAttr string
  | OtherAttr pyval

type_synonym attrs = "(string \<times> attr) list"

definition OrderedDict :: "attrs \<Rightarrow> attrs" where
  "OrderedDict attrs = AList.clearjunk attrs"

text \<open>
  A model class, as far as the module reads or writes it: the attribute mapping the
  framework built it from, and \<^verbatim>\<open>_meta\<close> (\<open>None\<close> when the class has no such attribute)
  with \<^verbatim>\<open>abstract\<close> and \<^verbatim>\<open>translatable_fields\<close> (\<open>None\<close> when not set).
\<close>

record options =
  abstract :: bool
  translatable_fields :: "string list option"

record model_class =
  class_attrs :: attrs
  meta :: "options option"

section \<open>The metaclass\<close>

text \<open>
  The tuple \<^verbatim>\<open>fields\<close> of the source is written \<open>tfields\<close> below (a record declares a
  constant \<open>fields\<close>).
\<close>

text \<open>
  \<^verbatim>\<open>get_translatable(attrs, meta_field)\<close>. \<^verbatim>\<open>delattr\<close> changes the class \<^verbatim>\<open>Meta\<close> that
  \<open>attrs\<close> holds, so the mapping is returned with the result.
\<close>

definition get_translatable ::
    "attrs \<Rightarrow> string \<Rightarrow> error + ((string list \<times> bool) \<times> attrs)" where
  "get_translatable attrs meta_field =
     (case map_of attrs ''Meta'' of
        Some (MetaAttr m) \<Rightarrow>
          (case map_of m meta_field of
             Some tfields \<Rightarrow>
               (let attrs' = AList.update ''Meta'' (MetaAttr (AList.delete meta_field m)) attrs in
                case tfields of
                  MTuple fs \<Rightarrow> Inr ((fs, True), attrs')
                | _ \<Rightarrow> Inl (ImproperlyConfigured ''Meta's translate attribute must be a tuple''))
           | None \<Rightarrow> Inr (([], False), attrs))
      | _ \<Rightarrow> Inr (([], False), attrs))"

definition no_field_message :: "string \<Rightarrow> string \<Rightarrow> string" where
  "no_field_message field name =
     ''There is no field '' @ field @ '' in model '' @ name @
     '', as specified in Meta's translate attribute''"

definition check_field_in_model :: "string \<Rightarrow> attrs \<Rightarrow> string \<Rightarrow> error + unit" where
  "check_field_in_model field attrs name =
     (case map_of attrs field of
        Some (FieldAttr f) \<Rightarrow> Inr ()
      | _ \<Rightarrow> Inl (ImproperlyConfigured (no_field_message field name)))"

text \<open>
  The body of the loop over the languages, lines 165 to 180: the copy of the original field
  for one entry \<open>lang\<close> of the catalog.
\<close>

definition lang_attr_of ::
    "settings \<Rightarrow> string list \<Rightarrow> string \<Rightarrow> field \<Rightarrow> string \<times> string \<Rightarrow> field" where
  "lang_attr_of st tfields field original_attr lang =
     (let lang_code = fst lang;
          lang_name = snd lang;
          a0 = original_attr\<lparr>original_fieldname := Some field\<rparr>;
          a1 = (if lang_code \<noteq> mandatory_language st then
                  (if field \<in> set tfields then
                     (let b = (if \<not> null_attr a0 \<and> default_attr a0 = None
                               then a0\<lparr>null_attr := True\<rparr> else a0)
                      in if \<not> blank_attr b then b\<lparr>blank_attr := True\<rparr> else b)
                   else a0)
                else a0)
      in case verbose_name a1 of
           Some v \<Rightarrow> a1\<lparr>verbose_name := Some (LazyString v lang_name)\<rparr>
         | None \<Rightarrow> a1)"

text \<open>The loop over the languages, lines 164 to 181.\<close>

fun expand_languages ::
    "settings \<Rightarrow> string option \<Rightarrow> string list \<Rightarrow> string \<Rightarrow> field \<Rightarrow>
     (string \<times> string) list \<Rightarrow> attrs \<Rightarrow> error + attrs" where
  "expand_languages st active tfields field original_attr [] attrs = Inr attrs"
| "expand_languages st active tfields field original_attr (lang # langs) attrs =
     (case get_real_fieldname active field (Some (fst lang)) of
        Inl e \<Rightarrow> Inl e
      | Inr lang_attr_name \<Rightarrow>
          expand_languages st active tfields field original_attr langs
            (AList.update lang_attr_name
               (FieldAttr (lang_attr_of st tfields field original_attr lang)) attrs))"

text \<open>
  The loop over \<^verbatim>\<open>fields + mandatory\<close>, lines 161 to 183. After the check the name is bound
  to a field, so the last branch of the inner case is never taken
  (lemma \<open>check_field_in_model_Inr\<close>).
\<close>

fun expand_fields ::
    "settings \<Rightarrow> string option \<Rightarrow> string list \<Rightarrow> string \<Rightarrow> string list \<Rightarrow> attrs \<Rightarrow>
     error + attrs" where
  "expand_fields st active tfields name [] attrs = Inr attrs"
| "expand_fields st active tfields name (field # rest) attrs =
     (case check_field_in_model field attrs name of
        Inl e \<Rightarrow> Inl e
      | Inr _ \<Rightarrow>
          (case map_of attrs field of
             Some (FieldAttr original_attr) \<Rightarrow>
               (case expand_languages st active tfields field original_attr
                       (get_languages st) attrs of
                  Inl e \<Rightarrow> Inl e
                | Inr attrs1 \<Rightarrow>
                    (let attrs2 = AList.delete field attrs1;
                         attrs3 = AList.update field (PropertyAttr field) attrs2
                     in expand_fields st active tfields name rest attrs3))
           | _ \<Rightarrow> Inl (AttributeError field)))"

text \<open>
  The registry a class without declarations of its own inherits, lines 150 to 158: the
  registries of its bases that have \<^verbatim>\<open>_meta\<close> and are abstract, one after the other.
\<close>

definition abstract_model_bases :: "model_class list \<Rightarrow> model_class list" where
  "abstract_model_bases bases =
     filter (\<lambda>base. case meta base of None \<Rightarrow> False | Some m \<Rightarrow> abstract m) bases"

definition inherited_translatable_fields :: "model_class list \<Rightarrow> string list" where
  "inherited_translatable_fields bases =
     foldl (\<lambda>acc base.
              case meta base of
                None \<Rightarrow> acc
              | Some m \<Rightarrow> (case translatable_fields m of None \<Rightarrow> acc | Some tf \<Rightarrow> acc @ tf))
       [] (abstract_model_bases bases)"

text \<open>
  \<^verbatim>\<open>TransMeta.__new__(cls, name, bases, attrs)\<close>. The constructor of the framework,
  \<^verbatim>\<open>super(TransMeta, cls).__new__\<close>, is the argument \<open>super_new\<close>: it may raise, and the
  class it returns may or may not have \<^verbatim>\<open>_meta\<close>.
\<close>

definition TransMeta_new ::
    "(string \<Rightarrow> model_class list \<Rightarrow> attrs \<Rightarrow> error + model_class) \<Rightarrow>
     settings \<Rightarrow> string option \<Rightarrow> string \<Rightarrow> model_class list \<Rightarrow> attrs \<Rightarrow>
     error + model_class" where
  "TransMeta_new super_new st active name bases attrs =
     (case get_translatable (OrderedDict attrs) ''translate'' of
        Inl e \<Rightarrow> Inl e
      | Inr ((tfields, trans_1), attrs1) \<Rightarrow>
          (case get_translatable attrs1 ''translate_mandatory'' of
             Inl e \<Rightarrow> Inl e
           | Inr ((mandatory, trans_2), attrs2) \<Rightarrow>
               if \<not> (trans_1 \<or> trans_2) then
                 (case super_new name bases attrs2 of
                    Inl e \<Rightarrow> Inl e
                  | Inr new_class \<Rightarrow>
                      (case meta new_class of
                         None \<Rightarrow> Inl (AttributeError ''_meta'')
                       | Some m \<Rightarrow>
                           Inr (new_class\<lparr>meta := Some (m\<lparr>translatable_fields :=
                                  Some (inherited_translatable_fields bases)\<rparr>)\<rparr>)))
               else
                 (case expand_fields st active tfields name (tfields @ mandatory) attrs2 of
                    Inl e \<Rightarrow> Inl e
                  | Inr attrs3 \<Rightarrow>
                      (case super_new name bases attrs3 of
                         Inl e \<Rightarrow> Inl e
                       | Inr new_class \<Rightarrow>
                           (case meta new_class of
                              None \<Rightarrow> Inr new_class
                            | Some m \<Rightarrow>
                                Inr (new_class\<lparr>meta := Some (m\<lparr>translatable_fields :=
                                       Some (mandatory @ tfields)\<rparr>)\<rparr>))))))"

section \<open>Reading a declaration\<close>

text \<open>
  What a class body declares, read off the attribute mapping it hands to the metaclass:
  \<open>declares attrs k\<close> says that its \<^verbatim>\<open>Meta\<close> has an attribute \<open>k\<close>, and
  \<open>declared_tuple attrs k\<close> is the tuple bound to it (empty when there is none).
\<close>

definition declares :: "attrs \<Rightarrow> string \<Rightarrow> bool" where
  "declares attrs k =
     (case map_of attrs ''Meta'' of
        Some (MetaAttr m) \<Rightarrow> (case map_of m k of Some v \<Rightarrow> True | None \<Rightarrow> False)
      | _ \<Rightarrow> False)"

definition declared_tuple :: "attrs \<Rightarrow> string \<Rightarrow> string list" where
  "declared_tuple attrs k =
     (case map_of attrs ''Meta'' of
        Some (MetaAttr m) \<Rightarrow> (case map_of m k of Some (MTuple fs) \<Rightarrow> fs | _ \<Rightarrow> [])
      | _ \<Rightarrow> [])"

text \<open>\<open>tuple_or_absent attrs k\<close>: \<^verbatim>\<open>Meta\<close> has no attribute \<open>k\<close>, or a tuple under it.\<close>

definition tuple_or_absent :: "attrs \<Rightarrow> string \<Rightarrow> bool" where
  "tuple_or_absent attrs k =
     (case map_of attrs ''Meta'' of
        Some (MetaAttr m) \<Rightarrow>
          (case map_of m k of Some (MTuple fs) \<Rightarrow> True | Some _ \<Rightarrow> False | None \<Rightarrow> True)
      | _ \<Rightarrow> True)"

text \<open>
  For the proofs: the name that \<^verbatim>\<open>get_real_fieldname(field, lang)\<close> returns for a language
  that is given (line 22), and the loop over the languages as the writes it makes to the
  mapping (lemmas \<open>get_real_fieldname_Some\<close> and \<open>expand_languages_Inr\<close>).
\<close>

definition lang_attr_name :: "string \<Rightarrow> string \<Rightarrow> string" where
  "lang_attr_name field lang_code = field @ ''_'' @ lang_code"

fun language_writes ::
    "settings \<Rightarrow> string list \<Rightarrow> string \<Rightarrow> field \<Rightarrow> (string \<times> string) list \<Rightarrow> attrs \<Rightarrow> attrs" where
  "language_writes st tfields field original_attr [] attrs = attrs"
| "language_writes st tfields field original_attr (lang # langs) attrs =
     language_writes st tfields field original_attr langs
       (AList.update (lang_attr_name field (fst lang))
          (FieldAttr (lang_attr_of st tfields field original_attr lang)) attrs)"

text \<open>
  The derived names \<^verbatim>\<open>g_<code>\<close> of the listed names do not clash: none of them is itself
  a listed name, and two of them are equal only when they come from the same listed name.
\<close>

definition no_clash :: "settings \<Rightarrow> string list \<Rightarrow> bool" where
  "no_clash st names =
     (\<forall>g \<in> set names. \<forall>c \<in> set (map fst (get_languages st)).
        g @ ''_'' @ c \<notin> set names \<and>
        (\<forall>h \<in> set names. \<forall>d \<in> set (map fst (get_languages st)).
           g @ ''_'' @ c = h @ ''_'' @ d \<longrightarrow> g = h))"

text \<open>
  The registry a class ends up with, and the field it binds a name to, for reading results:
  \<open>None\<close> where construction raised, the class has no \<^verbatim>\<open>_meta\<close>, or the name is not bound
  to a field.
\<close>

definition registry :: "error + model_class \<Rightarrow> string list option" where
  "registry r =
     (case r of
        Inl e \<Rightarrow> None
      | Inr c \<Rightarrow> (case meta c of None \<Rightarrow> None | Some m \<Rightarrow> translatable_fields m))"

definition class_field :: "error + model_class \<Rightarrow> string \<Rightarrow> field option" where
  "class_field r n =
     (case r of
        Inl e \<Rightarrow> None
      | Inr c \<Rightarrow> (case map_of (class_attrs c) n of Some (FieldAttr g) \<Rightarrow> Some g | _ \<Rightarrow> None))"

section \<open>Example configurations\<close>

text \<open>
  The configuration of the specification's example: catalog English and French, global
  default language \<^verbatim>\<open>en\<close>, fallback language \<^verbatim>\<open>fr\<close>, no mandatory language of its own
  (so French is the mandatory one).
\<close>

definition example_settings :: settings where
  "example_settings =
     \<lparr>LANGUAGES = [(''en'', ''English''), (''fr'', ''French'')],
      TRANSMETA_LANGUAGES = None,
      LANGUAGE_CODE = ''en'',
      TRANSMETA_DEFAULT_LANGUAGE = Some ''fr'',
      TRANSMETA_MANDATORY_LANGUAGE = None\<rparr>"


text \<open>
  A required field without a default, \<^verbatim>\<open>models.CharField(max_length=200)\<close>, and a
  constructor standing for the framework's in the examples: it returns a class with the
  attributes it was given and a \<^verbatim>\<open>_meta\<close> that is abstract or not as told.
\<close>

definition title_field :: field where
  "title_field =
     \<lparr>field_class = ''CharField'', field_options = [(''max_length'', PInt 200)],
      null_attr = False, blank_attr = False, default_attr = None,
      verbose_name = Some (Plain PNone), original_fieldname = None, name_attr = None\<rparr>"

definition plain_new ::
    "bool \<Rightarrow> string \<Rightarrow> model_class list \<Rightarrow> attrs \<Rightarrow> error + model_class" where
  "plain_new is_abstract name bases attrs =
     Inr \<lparr>class_attrs = attrs,
          meta = Some \<lparr>abstract = is_abstract, translatable_fields = None\<rparr>\<rparr>"

text \<open>
  Class bodies: a model that lists \<^verbatim>\<open>title\<close> in \<^verbatim>\<open>translate\<close>; one that lists it in
  \<^verbatim>\<open>translate_mandatory\<close>; one that declares \<^verbatim>\<open>a\<close> and lists \<^verbatim>\<open>a\<close> and \<^verbatim>\<open>a_en\<close>; an
  abstract base that lists \<^verbatim>\<open>title\<close>; a subclass that declares no tuple; and one that
  declares and lists both \<^verbatim>\<open>a\<close> and \<^verbatim>\<open>a_en\<close>.
\<close>

definition article_attrs :: attrs where
  "article_attrs =
     [(''title'', FieldAttr title_field),
      (''Meta'', MetaAttr [(''translate'', MTuple [''title''])])]"

definition mandatory_attrs :: attrs where
  "mandatory_attrs =
     [(''title'', FieldAttr title_field),
      (''Meta'', MetaAttr [(''translate_mandatory'', MTuple [''title''])])]"

definition clash_attrs :: attrs where
  "clash_attrs =
     [(''a'', FieldAttr title_field),
      (''Meta'', MetaAttr [(''translate'', MTuple [''a'', ''a_en''])])]"

definition base_attrs :: attrs where
  "base_attrs =
     [(''title'', FieldAttr title_field),
      (''Meta'', MetaAttr [(''abstract'', MVal (PBool True)), (''translate'', MTuple [''title''])])]"

definition subclass_attrs :: attrs where
  "subclass_attrs = [(''body'', FieldAttr title_field)]"

definition two_fields_attrs :: attrs where
  "two_fields_attrs =
     [(''a'', FieldAttr title_field),
      (''a_en'', FieldAttr title_field),
      (''Meta'', MetaAttr [(''translate'', MTuple [''a'', ''a_en''])])]"

text \<open>Two abstract model classes whose registries are both \<^verbatim>\<open>('title',)\<close>.\<close>

definition abstract_base :: model_class where
  "abstract_base =
     \<lparr>class_attrs = [],
      meta = Some \<lparr>abstract = True, translatable_fields = Some [''title'']\<rparr>\<rparr>"

definition other_abstract_base :: model_class where
  "other_abstract_base =
     \<lparr>class_attrs = [(''body'', FieldAttr title_field)],
      meta = Some \<lparr>abstract = True, translatable_fields = Some [''title'']\<rparr>\<rparr>"

text \<open>
  A concrete model class with the registry \<^verbatim>\<open>('body',)\<close>, and a base class that is not a
  model (it has no \<^verbatim>\<open>_meta\<close>).
\<close>

definition concrete_base :: model_class where
  "concrete_base =
     \<lparr>class_attrs = [],
      meta = Some \<lparr>abstract = False, translatable_fields = Some [''body'']\<rparr>\<rparr>"

definition mixin_base :: model_class where
  "mixin_base = \<lparr>class_attrs = [], meta = None\<rparr>"

section \<open>Splitting and derived names\<close>

lemma split_on_not_Nil: "split_on c s \<noteq> []"
  by (induction s) (auto split: list.splits)

lemma hd_split_on: "hd (split_on c s) = takeWhile (\<lambda>x. x \<noteq> c) s"
  by (induction s) (auto split: list.splits simp: split_on_not_Nil)

lemma split_on_append: "split_on c (p @ c # l) = split_on c p @ split_on c l"
  by (induction p) (auto split: list.splits simp: split_on_not_Nil)

lemma split_on_free: "c \<notin> set l \<Longrightarrow> split_on c l = [l]"
  by (induction l) auto

lemma last_split_on: "c \<notin> set l \<Longrightarrow> last (split_on c (p @ c # l)) = l"
  by (simp add: split_on_append split_on_free)

text \<open>
  The first two characters of a language code are its primary subtag (the code up to its
  first hyphen) when that subtag has two letters.
\<close>

lemma take_two_primary_subtag:
  "length (hd (split_on (CHR ''-'') cur)) = 2 \<Longrightarrow> take 2 cur = hd (split_on (CHR ''-'') cur)"
proof -
  assume l: "length (hd (split_on (CHR ''-'') cur)) = 2"
  have "cur = takeWhile (\<lambda>x. x \<noteq> CHR ''-'') cur @ dropWhile (\<lambda>x. x \<noteq> CHR ''-'') cur"
    by simp
  then have "take (length (takeWhile (\<lambda>x. x \<noteq> CHR ''-'') cur)) cur
               = takeWhile (\<lambda>x. x \<noteq> CHR ''-'') cur"
    by (metis append_eq_conv_conj)
  with l show ?thesis by (simp add: hd_split_on)
qed

text \<open>With a language given, \<^verbatim>\<open>get_real_fieldname\<close> returns a name, whatever is active.\<close>

lemma get_real_fieldname_Some [simp]:
  "get_real_fieldname active f (Some c) = Inr (lang_attr_name f c)"
  by (simp add: get_real_fieldname_def lang_attr_name_def)

lemma lang_attr_name_inj [simp]: "lang_attr_name f a = lang_attr_name f b \<longleftrightarrow> a = b"
  by (simp add: lang_attr_name_def)

lemma lang_attr_name_neq [simp]: "lang_attr_name f a \<noteq> f"
  by (simp add: lang_attr_name_def)

text \<open>A code without an underscore is read back from the derived name.\<close>

lemma derived_name_language:
  "CHR ''_'' \<notin> set c \<Longrightarrow> get_field_language (lang_attr_name g c) = c"
proof -
  assume c: "CHR ''_'' \<notin> set c"
  have "lang_attr_name g c = g @ CHR ''_'' # c"
    by (simp add: lang_attr_name_def)
  with c show ?thesis by (simp add: get_field_language_def last_split_on)
qed

text \<open>
  C10. Without an explicit language, \<^verbatim>\<open>get_real_fieldname\<close> builds the derived name from
  the active language code cut at its first hyphen: the language part never has a hyphen
  in it, the name is the one of the full code exactly when the code has no hyphen, and
  \<^verbatim>\<open>en-US\<close> gives \<^verbatim>\<open>field_en\<close>, not \<^verbatim>\<open>field_en-US\<close>.
\<close>

theorem get_real_fieldname_current_language:
  "get_real_fieldname (Some cur) field None
     = Inr (field @ ''_'' @ takeWhile (\<lambda>x. x \<noteq> CHR ''-'') cur)
   \<and> CHR ''-'' \<notin> set (takeWhile (\<lambda>x. x \<noteq> CHR ''-'') cur)
   \<and> (get_real_fieldname (Some cur) field None = get_real_fieldname (Some cur) field (Some cur))
       = (CHR ''-'' \<notin> set cur)
   \<and> get_real_fieldname (Some ''en-US'') ''field'' None = Inr ''field_en''
   \<and> get_real_fieldname (Some ''en-US'') ''field'' None \<noteq> Inr ''field_en-US''"
proof -
  have 1: "get_real_fieldname (Some cur) field None
             = Inr (field @ ''_'' @ takeWhile (\<lambda>x. x \<noteq> CHR ''-'') cur)"
    by (simp add: get_real_fieldname_def hd_split_on)
  have 2: "CHR ''-'' \<notin> set (takeWhile (\<lambda>x. x \<noteq> CHR ''-'') cur)"
    by (auto dest: set_takeWhileD)
  have 3: "(get_real_fieldname (Some cur) field None
              = get_real_fieldname (Some cur) field (Some cur))
             = (CHR ''-'' \<notin> set cur)"
    unfolding 1 by (auto simp: lang_attr_name_def)
  have 4: "get_real_fieldname (Some ''en-US'') ''field'' None = Inr ''field_en''"
    by (simp add: get_real_fieldname_def)
  from 1 2 3 4 show ?thesis by simp
qed

section \<open>The fallback chain\<close>

lemma default_value_func_chain:
  "default_value_func st (Some cur) field self =
     Inr (first_truthy (map (\<lambda>n. getattr_default self n PNone) (resolution_order st cur field)))"
  by (auto simp: default_value_func_def Let_def getattr_default_def getattr_raise_def
        resolution_order_def lang_attr_name_def split: option.splits)

text \<open>Without an active language the first \<^verbatim>\<open>attname(get_language())\<close> raises.\<close>

lemma default_value_func_None:
  "default_value_func st None field self = Inl (AttributeError ''split'')"
  by (simp add: default_value_func_def get_real_fieldname_def)

text \<open>
  C1. Reading the accessor of a translatable field, with the current language code
  \<open>cur\<close>, returns the first truthy value among
  those of \<^verbatim>\<open>f_<full current code>\<close>, \<^verbatim>\<open>f_<first two characters of the current code>\<close>,
  \<^verbatim>\<open>f_<fallback language>\<close> and \<^verbatim>\<open>f_<LANGUAGE_CODE>\<close>, in this order, an attribute that
  is not there counting as \<^verbatim>\<open>None\<close>. With current language \<^verbatim>\<open>en-US\<close>, fallback \<^verbatim>\<open>fr\<close>,
  default \<^verbatim>\<open>en\<close> and the values \<^verbatim>\<open>field_en = ""\<close>, \<^verbatim>\<open>field_fr = "Bonjour"\<close>,
  \<^verbatim>\<open>field_en_US = None\<close> the accessor returns \<^verbatim>\<open>"Bonjour"\<close>. The truncation of step 2 is
  \<^verbatim>\<open>get_language()[:2]\<close>, which is the primary subtag when that has two letters
  (lemma \<open>take_two_primary_subtag\<close>).
\<close>

theorem default_value_resolution_order:
  "default_value st (Some cur) field self =
     Inr (first_truthy (map (\<lambda>n. getattr_default self n PNone)
            [field @ ''_'' @ cur,
             field @ ''_'' @ take 2 cur,
             field @ ''_'' @ fallback_language st,
             field @ ''_'' @ LANGUAGE_CODE st]))
   \<and> fallback_language example_settings = ''fr''
   \<and> LANGUAGE_CODE example_settings = ''en''
   \<and> default_value example_settings (Some ''en-US'') ''field''
        [''field_en'' \<mapsto> PStr '''', ''field_fr'' \<mapsto> PStr ''Bonjour'', ''field_en_US'' \<mapsto> PNone]
      = Inr (PStr ''Bonjour'')"
proof -
  have "default_value st (Some cur) field self =
     Inr (first_truthy (map (\<lambda>n. getattr_default self n PNone)
            [field @ ''_'' @ cur,
             field @ ''_'' @ take 2 cur,
             field @ ''_'' @ fallback_language st,
             field @ ''_'' @ LANGUAGE_CODE st]))"
    by (simp add: default_value_def default_value_func_chain resolution_order_def)
  moreover have "fallback_language example_settings = ''fr''"
    by (simp add: fallback_language_def example_settings_def)
  moreover have "LANGUAGE_CODE example_settings = ''en''"
    by (simp add: example_settings_def)
  moreover have "default_value example_settings (Some ''en-US'') ''field''
        [''field_en'' \<mapsto> PStr '''', ''field_fr'' \<mapsto> PStr ''Bonjour'', ''field_en_US'' \<mapsto> PNone]
      = Inr (PStr ''Bonjour'')"
    by (simp add: default_value_def default_value_func_def Let_def getattr_default_def
          getattr_raise_def lang_attr_name_def fallback_language_def example_settings_def)
  ultimately show ?thesis by blast
qed

text \<open>
  The claim C2 when no language is active, \<^verbatim>\<open>get_language()\<close> being \<^verbatim>\<open>None\<close>: reading the
  accessor raises \<^verbatim>\<open>AttributeError\<close>, from \<^verbatim>\<open>None.split('-')\<close> at line 21, whatever the
  instance holds.
\<close>

theorem default_value_no_language_counterexample:
  "default_value example_settings None ''field''
     [''field_en'' \<mapsto> PStr ''Hello'', ''field_fr'' \<mapsto> PStr ''Bonjour'']
   = Inl (AttributeError ''split'')"
  by (simp add: default_value_def default_value_func_None)

text \<open>
  C2, amended. When a language is active (\<^verbatim>\<open>get_language()\<close> returns a language code),
  reading the accessor never raises: it returns a value for every configuration, language
  code, field name and instance. When the four values of the chain are all falsy or absent,
  the value returned is the one of \<^verbatim>\<open>f_<LANGUAGE_CODE>\<close>, \<^verbatim>\<open>None\<close> when that attribute is
  absent.
\<close>

theorem default_value_never_raises:
  "(\<exists>v. default_value st (Some cur) field self = Inr v)
   \<and> ((\<forall>n \<in> set (resolution_order st cur field). \<not> truthy (getattr_default self n PNone))
        \<longrightarrow> default_value st (Some cur) field self
              = Inr (getattr_default self (field @ ''_'' @ LANGUAGE_CODE st) PNone))"
  by (simp add: default_value_def default_value_func_chain resolution_order_def)

theorem default_value_never_raises_witness:
  "(\<exists>v. default_value example_settings (Some ''en-US'') ''field''
          [''field_en'' \<mapsto> PStr '''', ''field_fr'' \<mapsto> PNone] = Inr v)
   \<and> \<not> truthy (getattr_default [''field_en'' \<mapsto> PStr '''', ''field_fr'' \<mapsto> PNone]
                  ''field_en-US'' PNone)
   \<and> \<not> truthy (getattr_default [''field_en'' \<mapsto> PStr '''', ''field_fr'' \<mapsto> PNone]
                  ''field_en'' PNone)
   \<and> \<not> truthy (getattr_default [''field_en'' \<mapsto> PStr '''', ''field_fr'' \<mapsto> PNone]
                  ''field_fr'' PNone)
   \<and> default_value example_settings (Some ''en-US'') ''field''
        [''field_en'' \<mapsto> PStr '''', ''field_fr'' \<mapsto> PNone] = Inr (PStr '''')"
  using default_value_never_raises
    [of example_settings "''en-US''" "''field''"
        "[''field_en'' \<mapsto> PStr '''', ''field_fr'' \<mapsto> PNone]"]
  by (simp add: resolution_order_def getattr_default_def fallback_language_def
        example_settings_def)

section \<open>The loop over the languages\<close>

lemma check_field_in_model_Inr:
  "check_field_in_model f attrs name = Inr u \<Longrightarrow> \<exists>orig. map_of attrs f = Some (FieldAttr orig)"
  by (auto simp: check_field_in_model_def split: option.splits attr.splits)

lemma check_field_in_model_field:
  "map_of attrs f = Some (FieldAttr orig) \<Longrightarrow> check_field_in_model f attrs name = Inr ()"
  by (simp add: check_field_in_model_def)

lemma check_field_in_model_Inl:
  "check_field_in_model f attrs name = Inl e \<Longrightarrow>
     e = ImproperlyConfigured (no_field_message f name)"
  by (auto simp: check_field_in_model_def split: option.splits attr.splits)

text \<open>The loop never raises: it makes the writes of \<open>language_writes\<close>.\<close>

lemma expand_languages_Inr:
  "expand_languages st active tf f orig langs attrs = Inr (language_writes st tf f orig langs attrs)"
  by (induction langs arbitrary: attrs) simp_all

lemma map_of_expand_languages_other:
  "n \<notin> (\<lambda>l. lang_attr_name f (fst l)) ` set langs \<Longrightarrow>
   map_of (language_writes st tf f orig langs attrs) n = map_of attrs n"
  by (induction langs arbitrary: attrs) (auto simp: update_conv')

lemma map_of_expand_languages_hit:
  "c \<in> fst ` set langs \<Longrightarrow>
   \<exists>l' \<in> set langs. fst l' = c \<and>
     map_of (language_writes st tf f orig langs attrs) (lang_attr_name f c)
       = Some (FieldAttr (lang_attr_of st tf f orig l'))"
proof (induction langs arbitrary: attrs)
  case Nil
  then show ?case by simp
next
  case (Cons a langs)
  show ?case
  proof (cases "c \<in> fst ` set langs")
    case True
    from Cons.IH[OF True] show ?thesis by auto
  next
    case False
    with Cons.prems have ca: "fst a = c" by auto
    from False have n: "lang_attr_name f c \<notin>
        (\<lambda>l. lang_attr_name f (fst l)) ` set langs"
      by force
    have "map_of (language_writes st tf f orig (a # langs) attrs)
            (lang_attr_name f c)
          = Some (FieldAttr (lang_attr_of st tf f orig a))"
      unfolding language_writes.simps map_of_expand_languages_other[OF n]
      by (simp add: update_conv' ca)
    then show ?thesis using ca by auto
  qed
qed

lemma map_of_expand_languages_distinct:
  assumes d: "distinct (map fst langs)" and l: "l \<in> set langs"
  shows "map_of (language_writes st tf f orig langs attrs)
           (lang_attr_name f (fst l))
       = Some (FieldAttr (lang_attr_of st tf f orig l))"
proof -
  from l have "fst l \<in> fst ` set langs" by simp
  from map_of_expand_languages_hit[OF this] obtain l' where
    l': "l' \<in> set langs" "fst l' = fst l"
    "map_of (language_writes st tf f orig langs attrs)
        (lang_attr_name f (fst l))
       = Some (FieldAttr (lang_attr_of st tf f orig l'))" by blast
  from d have "inj_on fst (set langs)" by (simp add: distinct_map)
  with l l'(1,2) have "l' = l" by (auto dest: inj_onD)
  with l'(3) show ?thesis by simp
qed

lemma distinct_keys_expand_languages:
  "distinct (map fst attrs) \<Longrightarrow>
   distinct (map fst (language_writes st tf f orig langs attrs))"
  by (induction langs arbitrary: attrs) (auto simp: distinct_update)

lemma lang_attr_of_original_fieldname [simp]:
  "original_fieldname (lang_attr_of st tf f orig l) = Some f"
  by (simp add: lang_attr_of_def Let_def split: option.splits)

lemma lang_attr_of_null:
  "null_attr (lang_attr_of st tf f orig l) =
     (if fst l \<noteq> mandatory_language st \<and> f \<in> set tf \<and>
         \<not> null_attr orig \<and> default_attr orig = None
      then True else null_attr orig)"
  by (simp add: lang_attr_of_def Let_def split: option.splits)

lemma lang_attr_of_blank:
  "blank_attr (lang_attr_of st tf f orig l) =
     (if fst l \<noteq> mandatory_language st \<and> f \<in> set tf then True else blank_attr orig)"
  by (simp add: lang_attr_of_def Let_def split: option.splits)

lemma lang_attr_of_copy:
  "field_class (lang_attr_of st tf f orig l) = field_class orig \<and>
   field_options (lang_attr_of st tf f orig l) = field_options orig \<and>
   default_attr (lang_attr_of st tf f orig l) = default_attr orig \<and>
   name_attr (lang_attr_of st tf f orig l) = name_attr orig"
  by (simp add: lang_attr_of_def Let_def split: option.splits)

lemma lang_attr_of_verbose:
  "verbose_name (lang_attr_of st tf f orig l) =
     (case verbose_name orig of None \<Rightarrow> None | Some v \<Rightarrow> Some (LazyString v (snd l)))"
  by (simp add: lang_attr_of_def Let_def split: option.splits)

section \<open>The loop over the listed names\<close>

text \<open>One round of the loop, for a name that is bound to a field.\<close>

lemma expand_fields_Cons:
  "map_of attrs g = Some (FieldAttr og) \<Longrightarrow>
   expand_fields st active tf name (g # rest) attrs =
     expand_fields st active tf name rest
       (AList.update g (PropertyAttr g)
          (AList.delete g (language_writes st tf g og (get_languages st) attrs)))"
  by (simp add: check_field_in_model_field expand_languages_Inr Let_def)

lemma expand_fields_Cons_fail:
  "(\<forall>og. map_of attrs g \<noteq> Some (FieldAttr og)) \<Longrightarrow>
   expand_fields st active tf name (g # rest) attrs =
     Inl (ImproperlyConfigured (no_field_message g name))"
  by (auto simp: check_field_in_model_def split: option.splits attr.splits)

declare expand_fields.simps(2) [simp del]

lemma expand_fields_Cons_Inr:
  "expand_fields st active tf name (g # rest) attrs = Inr attrs' \<Longrightarrow>
   \<exists>og. map_of attrs g = Some (FieldAttr og)"
  by (auto simp: expand_fields.simps(2) split: sum.splits dest: check_field_in_model_Inr)

lemma map_of_round:
  "map_of (AList.update g (PropertyAttr g)
            (AList.delete g (language_writes st tf g og langs attrs))) n =
     (if n = g then Some (PropertyAttr g)
      else map_of (language_writes st tf g og langs attrs) n)"
  by (simp add: update_conv' delete_conv')

lemma map_of_round_other:
  "n \<noteq> g \<Longrightarrow> (\<forall>c \<in> fst ` set langs. lang_attr_name g c \<noteq> n) \<Longrightarrow>
   map_of (AList.update g (PropertyAttr g)
            (AList.delete g (language_writes st tf g og langs attrs))) n = map_of attrs n"
  by (subst map_of_round, simp, rule map_of_expand_languages_other) auto

text \<open>A name that no round touches keeps its binding.\<close>

lemma expand_fields_frame:
  "expand_fields st active tf name rest attrs = Inr attrs' \<Longrightarrow>
   (\<forall>g \<in> set rest. g \<noteq> n \<and>
      (\<forall>c \<in> fst ` set (get_languages st). lang_attr_name g c \<noteq> n)) \<Longrightarrow>
   map_of attrs' n = map_of attrs n"
proof (induction rest arbitrary: attrs)
  case Nil
  then show ?case by simp
next
  case (Cons g rest)
  from expand_fields_Cons_Inr[OF Cons.prems(1)]
  obtain og where og: "map_of attrs g = Some (FieldAttr og)" by blast
  let ?a3 = "AList.update g (PropertyAttr g)
          (AList.delete g (language_writes st tf g og (get_languages st) attrs))"
  from Cons.prems(1) have run: "expand_fields st active tf name rest ?a3 = Inr attrs'"
    by (simp add: expand_fields_Cons[OF og])
  from Cons.prems(2) have "map_of attrs' n = map_of ?a3 n"
    by (intro Cons.IH[OF run]) simp
  also from Cons.prems(2) have "\<dots> = map_of attrs n"
    by (intro map_of_round_other) auto
  finally show ?case .
qed

text \<open>
  A listed name that no round overwrites was bound to a field from the start, when the loop
  comes to its end.
\<close>

lemma expand_fields_listed_field:
  "expand_fields st active tf name rest attrs = Inr attrs' \<Longrightarrow> f \<in> set rest \<Longrightarrow>
   (\<forall>g \<in> set rest. \<forall>c \<in> fst ` set (get_languages st).
       lang_attr_name g c \<noteq> f) \<Longrightarrow>
   \<exists>orig. map_of attrs f = Some (FieldAttr orig)"
proof (induction rest arbitrary: attrs)
  case Nil
  then show ?case by simp
next
  case (Cons g rest)
  from expand_fields_Cons_Inr[OF Cons.prems(1)]
  obtain og where og: "map_of attrs g = Some (FieldAttr og)" by blast
  show ?case
  proof (cases "g = f")
    case True
    with og show ?thesis by auto
  next
    case False
    let ?a3 = "AList.update g (PropertyAttr g)
          (AList.delete g (language_writes st tf g og (get_languages st) attrs))"
    from Cons.prems(1) have run: "expand_fields st active tf name rest ?a3 = Inr attrs'"
      by (simp add: expand_fields_Cons[OF og])
    from False Cons.prems(2) have "f \<in> set rest" by simp
    from Cons.IH[OF run this] Cons.prems(3)
    obtain orig where "map_of ?a3 f = Some (FieldAttr orig)" by auto
    moreover from False Cons.prems(3) have "map_of ?a3 f = map_of attrs f"
      by (intro map_of_round_other) auto
    ultimately show ?thesis by auto
  qed
qed

lemma expand_fields_once:
  assumes run: "expand_fields st active tf name (g # rest) attrs = Inr attrs'"
    and nd: "\<forall>h \<in> set rest. \<forall>c \<in> fst ` set (get_languages st).
               lang_attr_name h c \<noteq> g"
  shows "g \<notin> set rest"
proof
  assume g: "g \<in> set rest"
  from expand_fields_Cons_Inr[OF run]
  obtain og where og: "map_of attrs g = Some (FieldAttr og)" by blast
  let ?a3 = "AList.update g (PropertyAttr g)
          (AList.delete g (language_writes st tf g og (get_languages st) attrs))"
  from run have "expand_fields st active tf name rest ?a3 = Inr attrs'"
    by (simp add: expand_fields_Cons[OF og])
  from expand_fields_listed_field[OF this g nd]
  obtain orig where "map_of ?a3 g = Some (FieldAttr orig)" by blast
  then show False by (simp add: map_of_round)
qed

text \<open>
  What the loop leaves under a derived name and under a listed name, when the derived names
  do not clash.
\<close>

lemma no_clashD1:
  "no_clash st names \<Longrightarrow> g \<in> set names \<Longrightarrow> c \<in> fst ` set (get_languages st) \<Longrightarrow>
   lang_attr_name g c \<notin> set names"
  unfolding no_clash_def lang_attr_name_def by auto

lemma no_clashD2:
  "no_clash st names \<Longrightarrow> g \<in> set names \<Longrightarrow> h \<in> set names \<Longrightarrow>
   c \<in> fst ` set (get_languages st) \<Longrightarrow> d \<in> fst ` set (get_languages st) \<Longrightarrow>
   lang_attr_name g c = lang_attr_name h d \<Longrightarrow> g = h"
  unfolding no_clash_def lang_attr_name_def set_map by blast

text \<open>
  They do not clash when no code of the catalog has an underscore in it and no listed name
  is a derived name of a listed name.
\<close>

lemma no_clash_by_codes:
  assumes u: "\<forall>c \<in> fst ` set (get_languages st). CHR ''_'' \<notin> set c"
    and n: "\<forall>g \<in> set names. \<forall>c \<in> fst ` set (get_languages st).
              lang_attr_name g c \<notin> set names"
  shows "no_clash st names"
  unfolding no_clash_def set_map lang_attr_name_def[symmetric]
proof (intro ballI conjI impI)
  fix g c assume g: "g \<in> set names" and c: "c \<in> fst ` set (get_languages st)"
  with n show "lang_attr_name g c \<notin> set names" by blast
  fix h d assume "h \<in> set names" and d: "d \<in> fst ` set (get_languages st)"
    and eq: "lang_attr_name g c = lang_attr_name h d"
  from u c d have "CHR ''_'' \<notin> set c" and "CHR ''_'' \<notin> set d" by blast+
  with eq derived_name_language[of c g] derived_name_language[of d h]
  have "c = d" by simp
  with eq show "g = h" by (simp add: lang_attr_name_def)
qed

lemma expand_fields_generated:
  assumes run: "expand_fields st active tf name rest attrs = Inr attrs'"
    and f: "f \<in> set rest" and c: "c \<in> fst ` set (get_languages st)"
    and sub: "set rest \<subseteq> set names" and nc: "no_clash st names"
  shows "\<exists>orig l. map_of attrs f = Some (FieldAttr orig) \<and> l \<in> set (get_languages st) \<and>
           fst l = c \<and>
           map_of attrs' (lang_attr_name f c)
             = Some (FieldAttr (lang_attr_of st tf f orig l))"
  using run f sub
proof (induction rest arbitrary: attrs)
  case Nil
  then show ?case by simp
next
  case (Cons g rest)
  from expand_fields_Cons_Inr[OF Cons.prems(1)]
  obtain og where og: "map_of attrs g = Some (FieldAttr og)" by blast
  let ?a1 = "language_writes st tf g og (get_languages st) attrs"
  let ?a3 = "AList.update g (PropertyAttr g) (AList.delete g ?a1)"
  let ?d = "lang_attr_name f c"
  from Cons.prems(1) have run': "expand_fields st active tf name rest ?a3 = Inr attrs'"
    by (simp add: expand_fields_Cons[OF og])
  from Cons.prems(3) have g: "g \<in> set names" and sub': "set rest \<subseteq> set names" by auto
  show ?case
  proof (cases "g = f")
    case True
    have "\<forall>h \<in> set rest. \<forall>c \<in> fst ` set (get_languages st).
            lang_attr_name h c \<noteq> g"
      using no_clashD1[OF nc] g sub' by blast
    from expand_fields_once[OF Cons.prems(1) this] True have fr: "f \<notin> set rest" by simp
    have "\<forall>h \<in> set rest. h \<noteq> ?d \<and>
            (\<forall>c' \<in> fst ` set (get_languages st). lang_attr_name h c' \<noteq> ?d)"
    proof (intro ballI conjI)
      fix h assume h: "h \<in> set rest"
      with sub' have hn: "h \<in> set names" by auto
      from no_clashD1[OF nc _ c, of f] g True hn show "h \<noteq> ?d" by auto
      fix c' assume c': "c' \<in> fst ` set (get_languages st)"
      show "lang_attr_name h c' \<noteq> ?d"
      proof
        assume "lang_attr_name h c' = ?d"
        from no_clashD2[OF nc hn _ c' c this] g True have "h = f" by simp
        with h fr show False by simp
      qed
    qed
    from expand_fields_frame[OF run' this] have "map_of attrs' ?d = map_of ?a3 ?d" .
    also from True have "\<dots> = map_of ?a1 ?d" by (simp add: map_of_round)
    finally have eq: "map_of attrs' ?d = map_of ?a1 ?d" .
    from map_of_expand_languages_hit[OF c, of st tf g og attrs] obtain l where
      l: "l \<in> set (get_languages st)" "fst l = c"
      "map_of ?a1 (lang_attr_name g c) = Some (FieldAttr (lang_attr_of st tf g og l))"
      by blast
    from eq og True l have "map_of attrs f = Some (FieldAttr og) \<and> l \<in> set (get_languages st) \<and>
           fst l = c \<and> map_of attrs' ?d = Some (FieldAttr (lang_attr_of st tf f og l))"
      by simp
    then show ?thesis by blast
  next
    case False
    with Cons.prems(2) have "f \<in> set rest" by simp
    from Cons.IH[OF run' this sub'] obtain orig l where
      *: "map_of ?a3 f = Some (FieldAttr orig)" "l \<in> set (get_languages st)" "fst l = c"
         "map_of attrs' ?d = Some (FieldAttr (lang_attr_of st tf f orig l))" by blast
    have "map_of ?a3 f = map_of attrs f"
    proof (rule map_of_round_other)
      from False show "f \<noteq> g" by simp
      from no_clashD1[OF nc g] Cons.prems(2,3)
      show "\<forall>c \<in> fst ` set (get_languages st). lang_attr_name g c \<noteq> f"
        by force
    qed
    with * have "map_of attrs f = Some (FieldAttr orig) \<and> l \<in> set (get_languages st) \<and>
           fst l = c \<and> map_of attrs' ?d = Some (FieldAttr (lang_attr_of st tf f orig l))"
      by simp
    then show ?thesis by blast
  qed
qed

lemma expand_fields_property:
  assumes run: "expand_fields st active tf name rest attrs = Inr attrs'"
    and f: "f \<in> set rest"
    and sub: "set rest \<subseteq> set names" and nc: "no_clash st names"
  shows "map_of attrs' f = Some (PropertyAttr f)"
  using run f sub
proof (induction rest arbitrary: attrs)
  case Nil
  then show ?case by simp
next
  case (Cons g rest)
  from expand_fields_Cons_Inr[OF Cons.prems(1)]
  obtain og where og: "map_of attrs g = Some (FieldAttr og)" by blast
  let ?a3 = "AList.update g (PropertyAttr g)
          (AList.delete g (language_writes st tf g og (get_languages st) attrs))"
  from Cons.prems(1) have run': "expand_fields st active tf name rest ?a3 = Inr attrs'"
    by (simp add: expand_fields_Cons[OF og])
  from Cons.prems(3) have g: "g \<in> set names" and sub': "set rest \<subseteq> set names" by auto
  show ?case
  proof (cases "f \<in> set rest")
    case True
    from Cons.IH[OF run' True sub'] show ?thesis .
  next
    case False
    with Cons.prems(2) have gf: "g = f" by simp
    have "\<forall>h \<in> set rest. h \<noteq> f \<and>
            (\<forall>c \<in> fst ` set (get_languages st). lang_attr_name h c \<noteq> f)"
      using False no_clashD1[OF nc] g gf sub' by blast
    from expand_fields_frame[OF run' this] gf show ?thesis by (simp add: map_of_round)
  qed
qed

text \<open>
  A listed name that is not bound to a field, and that no round binds, stops the loop at
  itself or before.
\<close>

lemma expand_fields_raises:
  "n \<in> set rest \<Longrightarrow> (\<forall>og. map_of attrs n \<noteq> Some (FieldAttr og)) \<Longrightarrow>
   (\<forall>g \<in> set rest. \<forall>c \<in> fst ` set (get_languages st).
       lang_attr_name g c \<noteq> n) \<Longrightarrow>
   \<exists>pre f post. rest = pre @ f # post \<and> n \<notin> set pre \<and>
     expand_fields st active tf name rest attrs
       = Inl (ImproperlyConfigured (no_field_message f name))"
proof (induction rest arbitrary: attrs)
  case Nil
  then show ?case by simp
next
  case (Cons g rest)
  show ?case
  proof (cases "\<exists>og. map_of attrs g = Some (FieldAttr og)")
    case False
    then have "expand_fields st active tf name (g # rest) attrs
                 = Inl (ImproperlyConfigured (no_field_message g name))"
      by (intro expand_fields_Cons_fail) simp
    then have "g # rest = [] @ g # rest \<and> n \<notin> set [] \<and>
         expand_fields st active tf name (g # rest) attrs
           = Inl (ImproperlyConfigured (no_field_message g name))" by simp
    then show ?thesis by blast
  next
    case True
    then obtain og where og: "map_of attrs g = Some (FieldAttr og)" by blast
    let ?a3 = "AList.update g (PropertyAttr g)
          (AList.delete g (language_writes st tf g og (get_languages st) attrs))"
    from og Cons.prems(2) have ng: "n \<noteq> g" by auto
    with Cons.prems(1) have nr: "n \<in> set rest" by simp
    from ng Cons.prems(3) have "map_of ?a3 n = map_of attrs n"
      by (intro map_of_round_other) auto
    with Cons.prems(2) have nf: "\<forall>og. map_of ?a3 n \<noteq> Some (FieldAttr og)" by simp
    from Cons.IH[OF nr nf] Cons.prems(3) obtain pre f post where
      *: "rest = pre @ f # post" "n \<notin> set pre"
         "expand_fields st active tf name rest ?a3
            = Inl (ImproperlyConfigured (no_field_message f name))" by auto
    from * ng have "g # rest = (g # pre) @ f # post \<and> n \<notin> set (g # pre) \<and>
        expand_fields st active tf name (g # rest) attrs
            = Inl (ImproperlyConfigured (no_field_message f name))"
      by (simp add: expand_fields_Cons[OF og])
    then show ?thesis by blast
  qed
qed

section \<open>Reading the declaration and building the class\<close>

lemma map_of_OrderedDict [simp]: "map_of (OrderedDict attrs) = map_of attrs"
  by (simp add: OrderedDict_def map_of_clearjunk)

lemma distinct_OrderedDict [simp]: "distinct (map fst (OrderedDict attrs))"
  by (simp add: OrderedDict_def)

lemma declares_OrderedDict [simp]: "declares (OrderedDict attrs) k = declares attrs k"
  by (simp add: declares_def)

lemma declared_tuple_OrderedDict [simp]:
  "declared_tuple (OrderedDict attrs) k = declared_tuple attrs k"
  by (simp add: declared_tuple_def)

lemma tuple_or_absent_OrderedDict [simp]:
  "tuple_or_absent (OrderedDict attrs) k = tuple_or_absent attrs k"
  by (simp add: tuple_or_absent_def)

text \<open>The four shapes of a declaration, and what each function makes of them.\<close>

lemma meta_cases:
  obtains (no_meta) "\<forall>m. map_of attrs ''Meta'' \<noteq> Some (MetaAttr m)"
  | (absent) m where "map_of attrs ''Meta'' = Some (MetaAttr m)" "map_of m k = None"
  | (tuple) m fs where "map_of attrs ''Meta'' = Some (MetaAttr m)" "map_of m k = Some (MTuple fs)"
  | (other) m v where "map_of attrs ''Meta'' = Some (MetaAttr m)" "map_of m k = Some v"
      "\<forall>fs. v \<noteq> MTuple fs"
proof (cases "map_of attrs ''Meta''")
  case None
  then show ?thesis using no_meta by simp
next
  case (Some a)
  show ?thesis
  proof (cases a)
    case (MetaAttr m)
    show ?thesis
    proof (cases "map_of m k")
      case None
      with Some MetaAttr show ?thesis using absent by simp
    next
      case (Some v)
      show ?thesis
      proof (cases v)
        case (MTuple fs)
        with Some \<open>map_of attrs ''Meta'' = Some a\<close> MetaAttr show ?thesis using tuple by simp
      next
        case (MList xs)
        with Some \<open>map_of attrs ''Meta'' = Some a\<close> MetaAttr show ?thesis using other by simp
      next
        case (MVal x)
        with Some \<open>map_of attrs ''Meta'' = Some a\<close> MetaAttr show ?thesis using other by simp
      qed
    qed
  qed (use Some no_meta in simp_all)
qed

lemma no_meta_eval:
  assumes "\<forall>m. map_of attrs ''Meta'' \<noteq> Some (MetaAttr m)"
  shows "\<not> declares attrs k" and "declared_tuple attrs k = []" and "tuple_or_absent attrs k"
    and "get_translatable attrs k = Inr (([], False), attrs)"
proof -
  show "\<not> declares attrs k"
    using assms by (cases "map_of attrs ''Meta''"; cases "the (map_of attrs ''Meta'')")
      (simp_all add: declares_def)
  show "declared_tuple attrs k = []"
    using assms by (cases "map_of attrs ''Meta''"; cases "the (map_of attrs ''Meta'')")
      (simp_all add: declared_tuple_def)
  show "tuple_or_absent attrs k"
    using assms by (cases "map_of attrs ''Meta''"; cases "the (map_of attrs ''Meta'')")
      (simp_all add: tuple_or_absent_def)
  show "get_translatable attrs k = Inr (([], False), attrs)"
    using assms by (cases "map_of attrs ''Meta''"; cases "the (map_of attrs ''Meta'')")
      (simp_all add: get_translatable_def)
qed

lemma absent_eval:
  assumes "map_of attrs ''Meta'' = Some (MetaAttr m)" and "map_of m k = None"
  shows "\<not> declares attrs k" and "declared_tuple attrs k = []" and "tuple_or_absent attrs k"
    and "get_translatable attrs k = Inr (([], False), attrs)"
  using assms
  by (simp_all add: declares_def declared_tuple_def tuple_or_absent_def get_translatable_def)

lemma tuple_eval:
  assumes "map_of attrs ''Meta'' = Some (MetaAttr m)" and "map_of m k = Some (MTuple fs)"
  shows "declares attrs k" and "declared_tuple attrs k = fs" and "tuple_or_absent attrs k"
    and "get_translatable attrs k
           = Inr ((fs, True), AList.update ''Meta'' (MetaAttr (AList.delete k m)) attrs)"
  using assms
  by (simp_all add: declares_def declared_tuple_def tuple_or_absent_def get_translatable_def)

lemma other_eval:
  assumes "map_of attrs ''Meta'' = Some (MetaAttr m)" and "map_of m k = Some v"
    and "\<forall>fs. v \<noteq> MTuple fs"
  shows "declares attrs k" and "declared_tuple attrs k = []" and "\<not> tuple_or_absent attrs k"
    and "get_translatable attrs k
           = Inl (ImproperlyConfigured ''Meta's translate attribute must be a tuple'')"
  using assms
  by (cases v; simp add: declares_def declared_tuple_def tuple_or_absent_def
        get_translatable_def)+

lemma declared_tuple_declares: "f \<in> set (declared_tuple attrs k) \<Longrightarrow> declares attrs k"
  by (cases rule: meta_cases[where attrs=attrs and k=k])
     (simp_all add: no_meta_eval absent_eval tuple_eval other_eval)

lemma declared_tuple_ok: "f \<in> set (declared_tuple attrs k) \<Longrightarrow> tuple_or_absent attrs k"
  by (cases rule: meta_cases[where attrs=attrs and k=k])
     (simp_all add: no_meta_eval absent_eval tuple_eval other_eval)

lemma get_translatable_absent:
  "\<not> declares attrs k \<Longrightarrow> get_translatable attrs k = Inr (([], False), attrs)"
  by (cases rule: meta_cases[where attrs=attrs and k=k])
     (simp_all add: no_meta_eval absent_eval tuple_eval other_eval)

lemma get_translatable_not_tuple:
  "\<not> tuple_or_absent attrs k \<Longrightarrow>
   get_translatable attrs k
     = Inl (ImproperlyConfigured ''Meta's translate attribute must be a tuple'')"
  by (cases rule: meta_cases[where attrs=attrs and k=k])
     (simp_all add: no_meta_eval absent_eval tuple_eval other_eval)

lemma get_translatable_Inl:
  "get_translatable attrs k = Inl e \<Longrightarrow>
   \<not> tuple_or_absent attrs k \<and>
   e = ImproperlyConfigured ''Meta's translate attribute must be a tuple''"
  by (cases rule: meta_cases[where attrs=attrs and k=k])
     (auto simp add: no_meta_eval absent_eval tuple_eval other_eval)

text \<open>
  What a successful call returns: the tuple, whether it was declared, and a mapping that
  differs from the given one at most in the attributes of \<^verbatim>\<open>Meta\<close>.
\<close>

lemma get_translatable_ok:
  "tuple_or_absent attrs k \<Longrightarrow>
   \<exists>attrs'. get_translatable attrs k = Inr ((declared_tuple attrs k, declares attrs k), attrs')"
  by (cases rule: meta_cases[where attrs=attrs and k=k])
     (simp_all add: no_meta_eval absent_eval tuple_eval other_eval)

lemma meta_update_eval:
  assumes "map_of attrs ''Meta'' = Some (MetaAttr m)"
  shows "declares (AList.update ''Meta'' (MetaAttr (AList.delete k m)) attrs) k'
           = (k' \<noteq> k \<and> declares attrs k')"
    and "k' \<noteq> k \<Longrightarrow> declared_tuple (AList.update ''Meta'' (MetaAttr (AList.delete k m)) attrs) k'
           = declared_tuple attrs k'"
    and "k' \<noteq> k \<Longrightarrow> tuple_or_absent (AList.update ''Meta'' (MetaAttr (AList.delete k m)) attrs) k'
           = tuple_or_absent attrs k'"
  using assms
  by (simp_all add: declares_def declared_tuple_def tuple_or_absent_def update_conv'
        delete_conv')

lemma get_translatable_Inr_all:
  assumes "get_translatable attrs k = Inr ((fs, t), attrs')"
  shows "fs = declared_tuple attrs k \<and> t = declares attrs k \<and> tuple_or_absent attrs k \<and>
     (\<forall>n. n \<noteq> ''Meta'' \<longrightarrow> map_of attrs' n = map_of attrs n) \<and>
     (\<forall>n og. (map_of attrs' n = Some (FieldAttr og)) = (map_of attrs n = Some (FieldAttr og))) \<and>
     (\<forall>k'. k' \<noteq> k \<longrightarrow> declared_tuple attrs' k' = declared_tuple attrs k' \<and>
        declares attrs' k' = declares attrs k' \<and>
        tuple_or_absent attrs' k' = tuple_or_absent attrs k') \<and>
     (distinct (map fst attrs) \<longrightarrow> distinct (map fst attrs'))"
proof (cases rule: meta_cases[where attrs=attrs and k=k])
  case no_meta
  with assms show ?thesis by (simp add: no_meta_eval)
next
  case (absent m)
  with assms show ?thesis by (simp add: absent_eval)
next
  case (tuple m fs')
  with assms have "attrs' = AList.update ''Meta'' (MetaAttr (AList.delete k m)) attrs"
    and "fs = fs'" and "t" by (simp_all add: tuple_eval)
  with tuple show ?thesis
    by (auto simp add: tuple_eval meta_update_eval update_conv' distinct_update)
next
  case (other m v)
  with assms show ?thesis by (simp add: other_eval)
qed

lemma get_translatable_Inr:
  assumes "get_translatable attrs k = Inr ((fs, t), attrs')"
  shows "fs = declared_tuple attrs k" and "t = declares attrs k"
    and "tuple_or_absent attrs k"
    and "n \<noteq> ''Meta'' \<Longrightarrow> map_of attrs' n = map_of attrs n"
    and "(map_of attrs' n = Some (FieldAttr og)) = (map_of attrs n = Some (FieldAttr og))"
    and "k' \<noteq> k \<Longrightarrow> declared_tuple attrs' k' = declared_tuple attrs k'"
    and "k' \<noteq> k \<Longrightarrow> declares attrs' k' = declares attrs k'"
    and "k' \<noteq> k \<Longrightarrow> tuple_or_absent attrs' k' = tuple_or_absent attrs k'"
    and "distinct (map fst attrs) \<Longrightarrow> distinct (map fst attrs')"
  using get_translatable_Inr_all[OF assms] by blast+

lemma inherited_translatable_fields_concat:
  "inherited_translatable_fields bases =
     concat (map (\<lambda>b. case registry (Inr b) of None \<Rightarrow> [] | Some tf \<Rightarrow> tf)
               (abstract_model_bases bases))"
proof -
  have "foldl (\<lambda>acc base. case meta base of None \<Rightarrow> acc
                | Some m \<Rightarrow> (case translatable_fields m of None \<Rightarrow> acc | Some tf \<Rightarrow> acc @ tf))
          acc bs
        = acc @ concat (map (\<lambda>b. case registry (Inr b) of None \<Rightarrow> [] | Some tf \<Rightarrow> tf) bs)"
    for acc and bs :: "model_class list"
    by (induction bs arbitrary: acc) (auto simp: registry_def split: option.splits)
  then show ?thesis by (simp add: inherited_translatable_fields_def)
qed

text \<open>The two paths of \<^verbatim>\<open>__new__\<close>.\<close>

lemma TransMeta_new_inherit:
  assumes "\<not> declares attrs ''translate''" and "\<not> declares attrs ''translate_mandatory''"
  shows "TransMeta_new super_new st active name bases attrs =
     (case super_new name bases (OrderedDict attrs) of
        Inl e \<Rightarrow> Inl e
      | Inr new_class \<Rightarrow>
          (case meta new_class of
             None \<Rightarrow> Inl (AttributeError ''_meta'')
           | Some m \<Rightarrow>
               Inr (new_class\<lparr>meta := Some (m\<lparr>translatable_fields :=
                      Some (inherited_translatable_fields bases)\<rparr>)\<rparr>)))"
  using assms by (simp add: TransMeta_new_def get_translatable_absent)

lemma TransMeta_new_expand:
  assumes d: "declares attrs ''translate'' \<or> declares attrs ''translate_mandatory''"
    and t1: "tuple_or_absent attrs ''translate''"
    and t2: "tuple_or_absent attrs ''translate_mandatory''"
  shows "\<exists>attrs2.
     (\<forall>n. n \<noteq> ''Meta'' \<longrightarrow> map_of attrs2 n = map_of attrs n) \<and>
     (\<forall>n og. (map_of attrs2 n = Some (FieldAttr og)) = (map_of attrs n = Some (FieldAttr og))) \<and>
     distinct (map fst attrs2) \<and>
     TransMeta_new super_new st active name bases attrs =
       (case expand_fields st active (declared_tuple attrs ''translate'') name
               (declared_tuple attrs ''translate'' @ declared_tuple attrs ''translate_mandatory'')
               attrs2 of
          Inl e \<Rightarrow> Inl e
        | Inr attrs3 \<Rightarrow>
            (case super_new name bases attrs3 of
               Inl e \<Rightarrow> Inl e
             | Inr new_class \<Rightarrow>
                 (case meta new_class of
                    None \<Rightarrow> Inr new_class
                  | Some m \<Rightarrow>
                      Inr (new_class\<lparr>meta := Some (m\<lparr>translatable_fields :=
                             Some (declared_tuple attrs ''translate_mandatory'' @
                                   declared_tuple attrs ''translate'')\<rparr>)\<rparr>))))"
proof -
  from t1 have "tuple_or_absent (OrderedDict attrs) ''translate''" by simp
  from get_translatable_ok[OF this] obtain attrs1 where
    g1: "get_translatable (OrderedDict attrs) ''translate''
           = Inr ((declared_tuple attrs ''translate'', declares attrs ''translate''), attrs1)"
    by auto
  note r1 = get_translatable_Inr[OF g1]
  from t2 r1(8)[of "''translate_mandatory''"]
  have "tuple_or_absent attrs1 ''translate_mandatory''" by simp
  from get_translatable_ok[OF this] r1(6)[of "''translate_mandatory''"]
       r1(7)[of "''translate_mandatory''"]
  obtain attrs2 where
    g2: "get_translatable attrs1 ''translate_mandatory''
           = Inr ((declared_tuple attrs ''translate_mandatory'',
                   declares attrs ''translate_mandatory''), attrs2)"
    by auto
  note r2 = get_translatable_Inr[OF g2]
  have a: "\<forall>n. n \<noteq> ''Meta'' \<longrightarrow> map_of attrs2 n = map_of attrs n"
    using r1(4) r2(4) by simp
  have b: "\<forall>n og. (map_of attrs2 n = Some (FieldAttr og)) = (map_of attrs n = Some (FieldAttr og))"
    using r1(5) r2(5) by simp
  have c: "distinct (map fst attrs2)"
    using r1(9) r2(9) by simp
  have "TransMeta_new super_new st active name bases attrs =
       (case expand_fields st active (declared_tuple attrs ''translate'') name
               (declared_tuple attrs ''translate'' @ declared_tuple attrs ''translate_mandatory'')
               attrs2 of
          Inl e \<Rightarrow> Inl e
        | Inr attrs3 \<Rightarrow>
            (case super_new name bases attrs3 of
               Inl e \<Rightarrow> Inl e
             | Inr new_class \<Rightarrow>
                 (case meta new_class of
                    None \<Rightarrow> Inr new_class
                  | Some m \<Rightarrow>
                      Inr (new_class\<lparr>meta := Some (m\<lparr>translatable_fields :=
                             Some (declared_tuple attrs ''translate_mandatory'' @
                                   declared_tuple attrs ''translate'')\<rparr>)\<rparr>))))"
    using d by (auto simp add: TransMeta_new_def g1 g2)
  with a b c show ?thesis by blast
qed

lemma TransMeta_new_Inr_tuples:
  assumes "TransMeta_new super_new st active name bases attrs = Inr cls"
  shows "tuple_or_absent attrs ''translate''" and "tuple_or_absent attrs ''translate_mandatory''"
proof -
  show 1: "tuple_or_absent attrs ''translate''"
  proof (rule ccontr)
    assume "\<not> tuple_or_absent attrs ''translate''"
    then have "\<not> tuple_or_absent (OrderedDict attrs) ''translate''" by simp
    from get_translatable_not_tuple[OF this] assms show False
      by (simp add: TransMeta_new_def)
  qed
  from 1 have "tuple_or_absent (OrderedDict attrs) ''translate''" by simp
  from get_translatable_ok[OF this] obtain attrs1 where
    g1: "get_translatable (OrderedDict attrs) ''translate''
           = Inr ((declared_tuple attrs ''translate'', declares attrs ''translate''), attrs1)"
    by auto
  note r1 = get_translatable_Inr[OF g1]
  show "tuple_or_absent attrs ''translate_mandatory''"
  proof (rule ccontr)
    assume "\<not> tuple_or_absent attrs ''translate_mandatory''"
    with r1(8)[of "''translate_mandatory''"]
    have "\<not> tuple_or_absent attrs1 ''translate_mandatory''" by simp
    from get_translatable_not_tuple[OF this] assms g1 show False
      by (simp add: TransMeta_new_def)
  qed
qed

text \<open>
  A class that was built from a declaration: the mapping handed to the framework's
  constructor holds, under each derived name of a listed name, the copy the loop made of the
  field that the class body binds the name to.
\<close>

lemma TransMeta_new_generated:
  assumes run: "TransMeta_new super_new st active name bases attrs = Inr cls"
    and f: "f \<in> set (declared_tuple attrs ''translate'' @
                      declared_tuple attrs ''translate_mandatory'')"
    and l: "l \<in> set (get_languages st)"
    and nc: "no_clash st (declared_tuple attrs ''translate'' @
                              declared_tuple attrs ''translate_mandatory'')"
  shows "\<exists>attrs3 new_class original l'.
           super_new name bases attrs3 = Inr new_class \<and>
           map_of attrs f = Some (FieldAttr original) \<and>
           l' \<in> set (get_languages st) \<and> fst l' = fst l \<and>
           map_of attrs3 f = Some (PropertyAttr f) \<and>
           map_of attrs3 (lang_attr_name f (fst l))
             = Some (FieldAttr (lang_attr_of st (declared_tuple attrs ''translate'') f
                                  original l'))"
proof -
  let ?tf = "declared_tuple attrs ''translate''"
  let ?names = "?tf @ declared_tuple attrs ''translate_mandatory''"
  from f have d: "declares attrs ''translate'' \<or> declares attrs ''translate_mandatory''"
    by (auto dest: declared_tuple_declares)
  from TransMeta_new_expand[OF d TransMeta_new_Inr_tuples[OF run], of super_new st active name bases]
  obtain attrs2 where
    b: "\<forall>n og. (map_of attrs2 n = Some (FieldAttr og)) = (map_of attrs n = Some (FieldAttr og))"
    and eq: "TransMeta_new super_new st active name bases attrs =
       (case expand_fields st active ?tf name ?names attrs2 of
          Inl e \<Rightarrow> Inl e
        | Inr attrs3 \<Rightarrow>
            (case super_new name bases attrs3 of
               Inl e \<Rightarrow> Inl e
             | Inr new_class \<Rightarrow>
                 (case meta new_class of
                    None \<Rightarrow> Inr new_class
                  | Some m \<Rightarrow>
                      Inr (new_class\<lparr>meta := Some (m\<lparr>translatable_fields :=
                             Some (declared_tuple attrs ''translate_mandatory'' @ ?tf)\<rparr>)\<rparr>))))"
    by blast
  from run eq obtain attrs3 new_class where
    ex: "expand_fields st active ?tf name ?names attrs2 = Inr attrs3"
    and sup: "super_new name bases attrs3 = Inr new_class"
    by (auto split: sum.splits)
  from l have c: "fst l \<in> fst ` set (get_languages st)" by simp
  from expand_fields_generated[OF ex f c subset_refl nc] obtain original l' where
    *: "map_of attrs2 f = Some (FieldAttr original)" "l' \<in> set (get_languages st)"
       "fst l' = fst l"
       "map_of attrs3 (lang_attr_name f (fst l))
          = Some (FieldAttr (lang_attr_of st ?tf f original l'))"
    by blast
  from expand_fields_property[OF ex f subset_refl nc]
  have p: "map_of attrs3 f = Some (PropertyAttr f)" .
  from * b have "map_of attrs f = Some (FieldAttr original)" by simp
  with sup * p show ?thesis by blast
qed

section \<open>Nullability of the generated fields\<close>

text \<open>The definitions of the module's functions, for evaluating them on examples.\<close>

lemmas eval_defs = TransMeta_new_def OrderedDict_def get_translatable_def
  expand_fields.simps(2) check_field_in_model_def lang_attr_of_def get_languages_def
  mandatory_language_def fallback_language_def lang_attr_name_def Let_def
  inherited_translatable_fields_def abstract_model_bases_def

text \<open>
  The claim C4 at a model that declares \<^verbatim>\<open>a\<close> and \<^verbatim>\<open>a_en\<close>, both required and without
  default, and lists both in \<^verbatim>\<open>translate\<close>, with French the mandatory language: the round
  of \<^verbatim>\<open>a\<close> overwrites \<^verbatim>\<open>a_en\<close> with its relaxed copy for English, and the round of
  \<^verbatim>\<open>a_en\<close> copies that one. The field generated for \<^verbatim>\<open>a_en\<close> and the mandatory language,
  \<^verbatim>\<open>a_en_fr\<close>, has \<^verbatim>\<open>null\<close> and \<^verbatim>\<open>blank\<close> \<^verbatim>\<open>True\<close>, not those of the original; and the
  derived name of \<^verbatim>\<open>a\<close> for English is bound to no field.
\<close>

theorem clashing_names_counterexample:
  "''a_en'' \<in> set (declared_tuple two_fields_attrs ''translate'')
   \<and> ''a_en'' \<notin> set (declared_tuple two_fields_attrs ''translate_mandatory'')
   \<and> map_of two_fields_attrs ''a_en'' = Some (FieldAttr title_field)
   \<and> \<not> null_attr title_field \<and> \<not> blank_attr title_field
   \<and> ''fr'' \<in> set (map fst (get_languages example_settings))
   \<and> mandatory_language example_settings = ''fr''
   \<and> get_real_fieldname (Some ''en'') ''a_en'' (Some ''fr'') = Inr ''a_en_fr''
   \<and> map_option null_attr
        (class_field (TransMeta_new (plain_new False) example_settings (Some ''en'')
                        ''Article'' [] two_fields_attrs) ''a_en_fr'') = Some True
   \<and> map_option blank_attr
        (class_field (TransMeta_new (plain_new False) example_settings (Some ''en'')
                        ''Article'' [] two_fields_attrs) ''a_en_fr'') = Some True
   \<and> get_real_fieldname (Some ''en'') ''a'' (Some ''en'') = Inr ''a_en''
   \<and> class_field (TransMeta_new (plain_new False) example_settings (Some ''en'')
                     ''Article'' [] two_fields_attrs) ''a_en'' = None"
  by (simp add: eval_defs expand_languages_Inr plain_new_def example_settings_def
        two_fields_attrs_def title_field_def declared_tuple_def class_field_def)

text \<open>
  C4, amended. For every class that construction returns and whose derived names do not
  clash (no name listed in \<^verbatim>\<open>translate\<close> or \<^verbatim>\<open>translate_mandatory\<close> is itself a name
  \<^verbatim>\<open>g_<code>\<close> of a listed name \<open>g\<close> and a code of the catalog, and two such names are equal
  only for the same listed name), for every name listed in \<^verbatim>\<open>translate\<close> and every
  language of the catalog: for a language other than the mandatory one, the generated field
  has \<^verbatim>\<open>null\<close> set to \<^verbatim>\<open>True\<close> when the original was not null and declared no default (and
  keeps the original \<^verbatim>\<open>null\<close> otherwise), and \<^verbatim>\<open>blank\<close> set to \<^verbatim>\<open>True\<close>; the one for the
  mandatory language keeps the original \<^verbatim>\<open>null\<close> and \<^verbatim>\<open>blank\<close>. The generated field is
  the binding of the derived name in the mapping handed to the framework's constructor; the
  original is the field that the class body binds the name to.
\<close>

theorem translate_fields_relaxed:
  assumes "TransMeta_new super_new st active name bases attrs = Inr cls"
    and "f \<in> set (declared_tuple attrs ''translate'')"
    and "l \<in> set (get_languages st)"
    and "no_clash st (declared_tuple attrs ''translate'' @
                      declared_tuple attrs ''translate_mandatory'')"
  shows "\<exists>attrs3 new_class original n g.
           super_new name bases attrs3 = Inr new_class \<and>
           map_of attrs f = Some (FieldAttr original) \<and>
           get_real_fieldname active f (Some (fst l)) = Inr n \<and>
           map_of attrs3 n = Some (FieldAttr g) \<and>
           null_attr g =
             (if fst l \<noteq> mandatory_language st \<and>
                 \<not> null_attr original \<and> default_attr original = None
              then True else null_attr original) \<and>
           blank_attr g = (if fst l \<noteq> mandatory_language st then True else blank_attr original)"
proof -
  let ?tf = "declared_tuple attrs ''translate''"
  from assms(2) have f: "f \<in> set (?tf @ declared_tuple attrs ''translate_mandatory'')"
    by simp
  from TransMeta_new_generated[OF assms(1) f assms(3,4)] obtain attrs3 new_class original l'
    where *: "super_new name bases attrs3 = Inr new_class"
      "map_of attrs f = Some (FieldAttr original)" "fst l' = fst l"
      "map_of attrs3 (lang_attr_name f (fst l))
         = Some (FieldAttr (lang_attr_of st ?tf f original l'))"
    by blast
  let ?g = "lang_attr_of st ?tf f original l'"
  have n: "get_real_fieldname active f (Some (fst l)) = Inr (lang_attr_name f (fst l))"
    by simp
  from assms(2) *(3) have "null_attr ?g =
             (if fst l \<noteq> mandatory_language st \<and>
                 \<not> null_attr original \<and> default_attr original = None
              then True else null_attr original)"
    and "blank_attr ?g = (if fst l \<noteq> mandatory_language st then True else blank_attr original)"
    by (simp_all add: lang_attr_of_null lang_attr_of_blank)
  with * n show ?thesis by blast
qed

theorem translate_fields_relaxed_witness:
  "\<exists>attrs3 new_class g.
     plain_new False ''Article'' [] attrs3 = Inr new_class \<and>
     map_of attrs3 ''title_en'' = Some (FieldAttr g) \<and>
     \<not> null_attr title_field \<and> default_attr title_field = None \<and>
     null_attr g \<and> blank_attr g"
proof -
  have 1: "TransMeta_new (plain_new False) example_settings (Some ''en'') ''Article'' []
             article_attrs
             = Inr \<lparr>class_attrs =
                 [(''Meta'', MetaAttr []),
                  (''title_en'', FieldAttr (title_field\<lparr>null_attr := True, blank_attr := True,
                      verbose_name := Some (LazyString (Plain PNone) ''English''),
                      original_fieldname := Some ''title''\<rparr>)),
                  (''title_fr'', FieldAttr (title_field\<lparr>
                      verbose_name := Some (LazyString (Plain PNone) ''French''),
                      original_fieldname := Some ''title''\<rparr>)),
                  (''title'', PropertyAttr ''title'')],
                meta = Some \<lparr>abstract = False, translatable_fields = Some [''title'']\<rparr>\<rparr>"
    by (simp add: eval_defs expand_languages_Inr plain_new_def example_settings_def
          article_attrs_def title_field_def declared_tuple_def no_clash_def)
  have 2: "''title'' \<in> set (declared_tuple article_attrs ''translate'')"
    by (simp add: eval_defs plain_new_def example_settings_def
          article_attrs_def title_field_def declared_tuple_def no_clash_def)
  have 3: "(''en'', ''English'') \<in> set (get_languages example_settings)"
    by (simp add: eval_defs plain_new_def example_settings_def
          article_attrs_def title_field_def declared_tuple_def no_clash_def)
  have 4: "no_clash example_settings (declared_tuple article_attrs ''translate'' @
             declared_tuple article_attrs ''translate_mandatory'')"
    by (simp add: eval_defs plain_new_def example_settings_def
          article_attrs_def title_field_def declared_tuple_def no_clash_def)
  have 5: "fst (''en'', ''English'') \<noteq> mandatory_language example_settings"
    by (simp add: eval_defs plain_new_def example_settings_def
          article_attrs_def title_field_def declared_tuple_def no_clash_def)
  from translate_fields_relaxed[OF 1 2 3 4] 5 obtain attrs3 new_class original g where
    *: "plain_new False ''Article'' [] attrs3 = Inr new_class"
       "map_of article_attrs ''title'' = Some (FieldAttr original)"
       "map_of attrs3 ''title_en'' = Some (FieldAttr g)"
       "null_attr g = (if \<not> null_attr original \<and> default_attr original = None
                       then True else null_attr original)"
       "blank_attr g"
    by (auto simp: lang_attr_name_def)
  from *(2) have o: "original = title_field" by (simp add: article_attrs_def)
  have t: "\<not> null_attr title_field \<and> default_attr title_field = None"
    by (simp add: title_field_def)
  with *(4) o have "null_attr g" by simp
  with * t show ?thesis by blast
qed

text \<open>
  The claim C5 at a model that lists \<^verbatim>\<open>title\<close>, a required field without a default, in
  \<^verbatim>\<open>translate_mandatory\<close>: English is not the mandatory language, and the generated
  \<^verbatim>\<open>title_en\<close> is as required as the original.
\<close>

theorem mandatory_fields_not_relaxed_counterexample:
  "''title'' \<in> set (declared_tuple mandatory_attrs ''translate_mandatory'')
   \<and> ''en'' \<in> set (map fst (get_languages example_settings))
   \<and> ''en'' \<noteq> mandatory_language example_settings
   \<and> \<not> null_attr title_field \<and> default_attr title_field = None
   \<and> get_real_fieldname (Some ''en'') ''title'' (Some ''en'') = Inr ''title_en''
   \<and> map_option null_attr
        (class_field (TransMeta_new (plain_new False) example_settings (Some ''en'')
                        ''Article'' [] mandatory_attrs) ''title_en'') = Some False
   \<and> map_option blank_attr
        (class_field (TransMeta_new (plain_new False) example_settings (Some ''en'')
                        ''Article'' [] mandatory_attrs) ''title_en'') = Some False"
  by (simp add: eval_defs expand_languages_Inr plain_new_def example_settings_def
        mandatory_attrs_def title_field_def declared_tuple_def class_field_def)

text \<open>
  C5, amended. For every class that construction returns and whose derived names do not
  clash (no name listed in \<^verbatim>\<open>translate\<close> or \<^verbatim>\<open>translate_mandatory\<close> is itself a name
  \<^verbatim>\<open>g_<code>\<close> of a listed name \<open>g\<close> and a code of the catalog, and two such names are equal
  only for the same listed name), for every name listed in \<^verbatim>\<open>translate_mandatory\<close> and not
  in \<^verbatim>\<open>translate\<close> and every language of the catalog, the mandatory one or not: the
  generated field keeps the \<^verbatim>\<open>null\<close> and \<^verbatim>\<open>blank\<close> of the original. Both tuples go through
  the same loop, and the loop relaxes only the names that are in \<^verbatim>\<open>translate\<close>.
\<close>

theorem mandatory_fields_keep_constraints:
  assumes "TransMeta_new super_new st active name bases attrs = Inr cls"
    and "f \<in> set (declared_tuple attrs ''translate_mandatory'')"
    and "f \<notin> set (declared_tuple attrs ''translate'')"
    and "l \<in> set (get_languages st)"
    and "no_clash st (declared_tuple attrs ''translate'' @
                      declared_tuple attrs ''translate_mandatory'')"
  shows "\<exists>attrs3 new_class original n g.
           super_new name bases attrs3 = Inr new_class \<and>
           map_of attrs f = Some (FieldAttr original) \<and>
           get_real_fieldname active f (Some (fst l)) = Inr n \<and>
           map_of attrs3 n = Some (FieldAttr g) \<and>
           null_attr g = null_attr original \<and> blank_attr g = blank_attr original"
proof -
  let ?tf = "declared_tuple attrs ''translate''"
  from assms(2) have f: "f \<in> set (?tf @ declared_tuple attrs ''translate_mandatory'')"
    by simp
  from TransMeta_new_generated[OF assms(1) f assms(4,5)] obtain attrs3 new_class original l'
    where *: "super_new name bases attrs3 = Inr new_class"
      "map_of attrs f = Some (FieldAttr original)"
      "map_of attrs3 (lang_attr_name f (fst l))
         = Some (FieldAttr (lang_attr_of st ?tf f original l'))"
    by blast
  let ?g = "lang_attr_of st ?tf f original l'"
  have n: "get_real_fieldname active f (Some (fst l)) = Inr (lang_attr_name f (fst l))"
    by simp
  from assms(3) have "null_attr ?g = null_attr original" and "blank_attr ?g = blank_attr original"
    by (simp_all add: lang_attr_of_null lang_attr_of_blank)
  with * n show ?thesis by blast
qed

theorem mandatory_fields_keep_constraints_witness:
  "\<exists>attrs3 new_class g.
     plain_new False ''Article'' [] attrs3 = Inr new_class \<and>
     map_of attrs3 ''title_en'' = Some (FieldAttr g) \<and>
     null_attr g = null_attr title_field \<and> blank_attr g = blank_attr title_field"
proof -
  have 1: "TransMeta_new (plain_new False) example_settings (Some ''en'') ''Article'' []
             mandatory_attrs
             = Inr \<lparr>class_attrs =
                 [(''Meta'', MetaAttr []),
                  (''title_en'', FieldAttr (title_field\<lparr>
                      verbose_name := Some (LazyString (Plain PNone) ''English''),
                      original_fieldname := Some ''title''\<rparr>)),
                  (''title_fr'', FieldAttr (title_field\<lparr>
                      verbose_name := Some (LazyString (Plain PNone) ''French''),
                      original_fieldname := Some ''title''\<rparr>)),
                  (''title'', PropertyAttr ''title'')],
                meta = Some \<lparr>abstract = False, translatable_fields = Some [''title'']\<rparr>\<rparr>"
    by (simp add: eval_defs expand_languages_Inr plain_new_def example_settings_def
          mandatory_attrs_def title_field_def declared_tuple_def no_clash_def)
  have 2: "''title'' \<in> set (declared_tuple mandatory_attrs ''translate_mandatory'')"
    by (simp add: mandatory_attrs_def declared_tuple_def)
  have 3: "''title'' \<notin> set (declared_tuple mandatory_attrs ''translate'')"
    by (simp add: mandatory_attrs_def declared_tuple_def)
  have 4: "(''en'', ''English'') \<in> set (get_languages example_settings)"
    by (simp add: get_languages_def example_settings_def)
  have 5: "no_clash example_settings (declared_tuple mandatory_attrs ''translate'' @
             declared_tuple mandatory_attrs ''translate_mandatory'')"
    by (simp add: get_languages_def example_settings_def mandatory_attrs_def
          declared_tuple_def no_clash_def)
  from mandatory_fields_keep_constraints[OF 1 2 3 4 5] obtain attrs3 new_class original g
    where *: "plain_new False ''Article'' [] attrs3 = Inr new_class"
       "map_of mandatory_attrs ''title'' = Some (FieldAttr original)"
       "map_of attrs3 ''title_en'' = Some (FieldAttr g)"
       "null_attr g = null_attr original" "blank_attr g = blank_attr original"
    by (auto simp: lang_attr_name_def)
  from *(2) have "original = title_field" by (simp add: mandatory_attrs_def)
  with * show ?thesis by blast
qed

section \<open>The round trip of the name helpers\<close>




section \<open>Declarations that are refused\<close>

text \<open>
  A declaration under \<^verbatim>\<open>translate\<close> or \<^verbatim>\<open>translate_mandatory\<close> that is not a tuple is
  refused before the framework's constructor is called and before any name is expanded,
  with the same message for both attributes.
\<close>

lemma TransMeta_new_not_tuple:
  assumes "\<not> tuple_or_absent attrs ''translate'' \<or> \<not> tuple_or_absent attrs ''translate_mandatory''"
  shows "TransMeta_new super_new st active name bases attrs
           = Inl (ImproperlyConfigured ''Meta's translate attribute must be a tuple'')"
proof (cases "tuple_or_absent attrs ''translate''")
  case False
  then have "\<not> tuple_or_absent (OrderedDict attrs) ''translate''" by simp
  from get_translatable_not_tuple[OF this] show ?thesis
    by (simp add: TransMeta_new_def)
next
  case True
  then have "tuple_or_absent (OrderedDict attrs) ''translate''" by simp
  from get_translatable_ok[OF this] obtain attrs1 where
    g1: "get_translatable (OrderedDict attrs) ''translate''
           = Inr ((declared_tuple attrs ''translate'', declares attrs ''translate''), attrs1)"
    by auto
  from True assms get_translatable_Inr(8)[OF g1, of "''translate_mandatory''"]
  have "\<not> tuple_or_absent attrs1 ''translate_mandatory''" by simp
  from get_translatable_not_tuple[OF this] g1 show ?thesis
    by (simp add: TransMeta_new_def)
qed

text \<open>
  C6, at a model whose \<^verbatim>\<open>translate_mandatory\<close> is the list \<^verbatim>\<open>['x']\<close> and at one whose
  \<^verbatim>\<open>translate\<close> is: construction raises the configuration error whatever the framework's
  constructor, the configuration and the bases are, and in both cases the message names
  \<^verbatim>\<open>translate\<close>.
\<close>

theorem not_a_tuple_message:
  "TransMeta_new super_new st active name bases
     [(''x'', FieldAttr title_field), (''Meta'', MetaAttr [(''translate_mandatory'', MList [''x''])])]
     = Inl (ImproperlyConfigured ''Meta's translate attribute must be a tuple'')
   \<and> TransMeta_new super_new st active name bases
     [(''x'', FieldAttr title_field), (''Meta'', MetaAttr [(''translate'', MList [''x''])])]
     = Inl (ImproperlyConfigured ''Meta's translate attribute must be a tuple'')"
  by (simp add: TransMeta_new_def OrderedDict_def get_translatable_def)

text \<open>
  C7, at a model that declares the field \<^verbatim>\<open>a\<close> alone and lists \<^verbatim>\<open>a\<close> and \<^verbatim>\<open>a_en\<close> in
  \<^verbatim>\<open>translate\<close>, with English in the catalog: \<^verbatim>\<open>a_en\<close> is not bound in the class body, so
  construction should raise the configuration error for it. The check of \<^verbatim>\<open>a_en\<close> runs
  after the round of \<^verbatim>\<open>a\<close> has bound the name to the English copy of \<^verbatim>\<open>a\<close>, it passes,
  and construction returns a class with the registry \<^verbatim>\<open>('a', 'a_en')\<close>.
\<close>

theorem listed_derived_name_accepted:
  "''a_en'' \<in> set (declared_tuple clash_attrs ''translate'')
   \<and> map_of clash_attrs ''a_en'' = None
   \<and> check_field_in_model ''a_en'' clash_attrs ''Article''
       = Inl (ImproperlyConfigured
           ''There is no field a_en in model Article, as specified in Meta's translate attribute'')
   \<and> \<not> isl (TransMeta_new (plain_new False) example_settings (Some ''en'') ''Article'' []
               clash_attrs)
   \<and> registry (TransMeta_new (plain_new False) example_settings (Some ''en'') ''Article'' []
                 clash_attrs)
       = Some [''a'', ''a_en'']"
  by (simp add: eval_defs expand_languages_Inr plain_new_def example_settings_def
        clash_attrs_def title_field_def declared_tuple_def registry_def no_field_message_def)

text \<open>
  Where no round can bind the name, the error is raised: when both attributes, where
  present, are tuples, and a listed name is neither bound to a field in the class body nor
  a derived name \<^verbatim>\<open>g_<code>\<close> of a listed name and a code of the catalog, construction
  raises the configuration error, whatever the framework's constructor is, and the message
  identifies the model name and that name or a name listed before it.
\<close>

lemma missing_field_raises:
  assumes "tuple_or_absent attrs ''translate''" and "tuple_or_absent attrs ''translate_mandatory''"
    and "n \<in> set (declared_tuple attrs ''translate'' @ declared_tuple attrs ''translate_mandatory'')"
    and "\<forall>og. map_of attrs n \<noteq> Some (FieldAttr og)"
    and "\<forall>g \<in> set (declared_tuple attrs ''translate'' @
                     declared_tuple attrs ''translate_mandatory'').
           \<forall>c \<in> fst ` set (get_languages st). lang_attr_name g c \<noteq> n"
  shows "\<exists>pre f post.
           declared_tuple attrs ''translate'' @ declared_tuple attrs ''translate_mandatory''
             = pre @ f # post \<and> n \<notin> set pre \<and>
           TransMeta_new super_new st active name bases attrs
             = Inl (ImproperlyConfigured
                 (''There is no field '' @ f @ '' in model '' @ name @
                  '', as specified in Meta's translate attribute''))"
proof -
  let ?tf = "declared_tuple attrs ''translate''"
  let ?names = "?tf @ declared_tuple attrs ''translate_mandatory''"
  from assms(3) have d: "declares attrs ''translate'' \<or> declares attrs ''translate_mandatory''"
    by (auto dest: declared_tuple_declares)
  from TransMeta_new_expand[OF d assms(1,2), of super_new st active name bases]
  obtain attrs2 where
    b: "\<forall>n og. (map_of attrs2 n = Some (FieldAttr og)) = (map_of attrs n = Some (FieldAttr og))"
    and eq: "TransMeta_new super_new st active name bases attrs =
       (case expand_fields st active ?tf name ?names attrs2 of
          Inl e \<Rightarrow> Inl e
        | Inr attrs3 \<Rightarrow>
            (case super_new name bases attrs3 of
               Inl e \<Rightarrow> Inl e
             | Inr new_class \<Rightarrow>
                 (case meta new_class of
                    None \<Rightarrow> Inr new_class
                  | Some m \<Rightarrow>
                      Inr (new_class\<lparr>meta := Some (m\<lparr>translatable_fields :=
                             Some (declared_tuple attrs ''translate_mandatory'' @ ?tf)\<rparr>)\<rparr>))))"
    by blast
  from assms(4) b have nf: "\<forall>og. map_of attrs2 n \<noteq> Some (FieldAttr og)" by simp
  from expand_fields_raises[OF assms(3) nf assms(5), where tf="?tf" and name=name
      and active=active]
  obtain pre f post where
    *: "?names = pre @ f # post" "n \<notin> set pre"
       "expand_fields st active ?tf name ?names attrs2
          = Inl (ImproperlyConfigured (no_field_message f name))"
    by blast
  from eq *(3) have "TransMeta_new super_new st active name bases attrs
      = Inl (ImproperlyConfigured
                 (''There is no field '' @ f @ '' in model '' @ name @
                  '', as specified in Meta's translate attribute''))"
    by (simp add: no_field_message_def)
  with *(1,2) show ?thesis by blast
qed

section \<open>Expansion of one translatable field\<close>

lemma real_fieldnames_Inr:
  "real_fieldnames active f langs = Inr (map (\<lambda>l. lang_attr_name f (fst l)) langs)"
  by (induction langs) simp_all

lemma derived_names_distinct:
  assumes d: "distinct (map fst langs)"
  shows "distinct (map (\<lambda>l. lang_attr_name f (fst l)) langs)"
proof -
  have inj: "inj (\<lambda>c. lang_attr_name f c)"
    by (rule injI) simp
  have "distinct (map (\<lambda>c. lang_attr_name f c) (map fst langs))"
    by (intro distinct_map[THEN iffD2] conjI inj_on_subset[OF inj] d) simp
  then show ?thesis by (simp add: comp_def)
qed

lemma derived_name_not_Meta: "lang_attr_name f c \<noteq> ''Meta''"
proof
  assume "lang_attr_name f c = ''Meta''"
  then have "set (lang_attr_name f c) = set ''Meta''" by simp
  moreover have "CHR ''_'' \<in> set (lang_attr_name f c)"
    by (simp add: lang_attr_name_def)
  ultimately show False by simp
qed

text \<open>
  C3. A model that declares \<^verbatim>\<open>translate = (f,)\<close> (and no \<^verbatim>\<open>translate_mandatory\<close>) for a
  field \<open>f\<close> of its body, over a catalog of \<open>N\<close> languages (\<open>N\<close> entries with different
  codes): construction does not raise before it calls the framework's constructor, and the
  mapping \<open>attrs3\<close> it hands over binds every name once; binds each of the \<open>N\<close> different
  derived names \<^verbatim>\<open>f_<code>\<close> to the copy of the original field made for that language,
  which carries \<^verbatim>\<open>original_fieldname = f\<close> and the class, options, default and name of
  the original; binds \<open>f\<close> to the property of \<^verbatim>\<open>default_value(f)\<close> and no longer to a
  field; binds \<^verbatim>\<open>Meta\<close> to the class without its \<^verbatim>\<open>translate\<close>; and binds every other name
  as the class body does. The registry of the class is \<^verbatim>\<open>(f,)\<close>.
\<close>

theorem single_field_expansion:
  assumes "map_of attrs ''Meta'' = Some (MetaAttr m)"
    and "map_of m ''translate'' = Some (MTuple [f])"
    and "map_of m ''translate_mandatory'' = None"
    and "map_of attrs f = Some (FieldAttr original)"
    and "distinct (map fst (get_languages st))"
  shows "\<exists>attrs3 names.
      TransMeta_new super_new st active name bases attrs =
        (case super_new name bases attrs3 of
           Inl e \<Rightarrow> Inl e
         | Inr new_class \<Rightarrow>
             (case meta new_class of
                None \<Rightarrow> Inr new_class
              | Some opts \<Rightarrow>
                  Inr (new_class\<lparr>meta := Some (opts\<lparr>translatable_fields := Some [f]\<rparr>)\<rparr>)))
      \<and> distinct (map fst attrs3)
      \<and> get_real_fieldname_in_each_language st active f = Inr names
      \<and> length names = length (get_languages st)
      \<and> distinct names
      \<and> (\<forall>l \<in> set (get_languages st). \<exists>n \<in> set names.
            get_real_fieldname active f (Some (fst l)) = Inr n
            \<and> map_of attrs3 n = Some (FieldAttr (lang_attr_of st [f] f original l))
            \<and> original_fieldname (lang_attr_of st [f] f original l) = Some f
            \<and> field_class (lang_attr_of st [f] f original l) = field_class original
            \<and> field_options (lang_attr_of st [f] f original l) = field_options original
            \<and> default_attr (lang_attr_of st [f] f original l) = default_attr original
            \<and> name_attr (lang_attr_of st [f] f original l) = name_attr original)
      \<and> map_of attrs3 f = Some (PropertyAttr f)
      \<and> map_of attrs3 ''Meta'' = Some (MetaAttr (AList.delete ''translate'' m))
      \<and> (\<forall>n. n \<noteq> f \<and> n \<noteq> ''Meta'' \<and> n \<notin> set names
             \<longrightarrow> map_of attrs3 n = map_of attrs n)"
proof -
  let ?langs = "get_languages st"
  let ?names = "map (\<lambda>l. lang_attr_name f (fst l)) ?langs"
  let ?a0 = "OrderedDict attrs"
  let ?a1 = "AList.update ''Meta'' (MetaAttr (AList.delete ''translate'' m)) ?a0"
  let ?e = "language_writes st [f] f original ?langs ?a1"
  let ?a3 = "AList.update f (PropertyAttr f) (AList.delete f ?e)"
  from assms(1,4) have fM: "f \<noteq> ''Meta''" by auto
  have M0: "map_of ?a0 ''Meta'' = Some (MetaAttr m)" using assms(1) by simp
  have g1: "get_translatable ?a0 ''translate'' = Inr (([f], True), ?a1)"
    using tuple_eval(4)[OF M0 assms(2)] .
  have M1: "map_of ?a1 ''Meta'' = Some (MetaAttr (AList.delete ''translate'' m))"
    by (simp add: update_conv')
  have "map_of (AList.delete ''translate'' m) ''translate_mandatory'' = None"
    using assms(3) by (simp add: delete_conv')
  from absent_eval(4)[OF M1 this]
  have g2: "get_translatable ?a1 ''translate_mandatory'' = Inr (([], False), ?a1)" .
  have F1: "map_of ?a1 f = Some (FieldAttr original)"
    using assms(4) fM by (simp add: update_conv')
  have ex: "expand_fields st active [f] name [f] ?a1 = Inr ?a3"
    by (simp add: expand_fields_Cons[OF F1])
  have eq: "TransMeta_new super_new st active name bases attrs =
        (case super_new name bases ?a3 of
           Inl e \<Rightarrow> Inl e
         | Inr new_class \<Rightarrow>
             (case meta new_class of
                None \<Rightarrow> Inr new_class
              | Some opts \<Rightarrow>
                  Inr (new_class\<lparr>meta := Some (opts\<lparr>translatable_fields := Some [f]\<rparr>)\<rparr>)))"
    by (simp add: TransMeta_new_def g1 g2 ex cong: sum.case_cong option.case_cong)
  have dk: "distinct (map fst ?a3)"
    by (intro distinct_update distinct_delete distinct_keys_expand_languages) simp
  have nm: "get_real_fieldname_in_each_language st active f = Inr ?names"
    by (simp add: get_real_fieldname_in_each_language_def real_fieldnames_Inr)
  have ln: "length ?names = length ?langs" by simp
  have dn: "distinct ?names" by (rule derived_names_distinct[OF assms(5)])
  have gen: "\<forall>l \<in> set ?langs. \<exists>n \<in> set ?names.
            get_real_fieldname active f (Some (fst l)) = Inr n
            \<and> map_of ?a3 n = Some (FieldAttr (lang_attr_of st [f] f original l))
            \<and> original_fieldname (lang_attr_of st [f] f original l) = Some f
            \<and> field_class (lang_attr_of st [f] f original l) = field_class original
            \<and> field_options (lang_attr_of st [f] f original l) = field_options original
            \<and> default_attr (lang_attr_of st [f] f original l) = default_attr original
            \<and> name_attr (lang_attr_of st [f] f original l) = name_attr original"
  proof
    fix l assume l: "l \<in> set ?langs"
    have "map_of ?a3 (lang_attr_name f (fst l))
            = map_of ?e (lang_attr_name f (fst l))"
      by (simp add: map_of_round)
    also have "\<dots> = Some (FieldAttr (lang_attr_of st [f] f original l))"
      by (rule map_of_expand_languages_distinct[OF assms(5) l])
    finally have A: "get_real_fieldname active f (Some (fst l)) = Inr (lang_attr_name f (fst l))
            \<and> map_of ?a3 (lang_attr_name f (fst l))
              = Some (FieldAttr (lang_attr_of st [f] f original l))
            \<and> original_fieldname (lang_attr_of st [f] f original l) = Some f
            \<and> field_class (lang_attr_of st [f] f original l) = field_class original
            \<and> field_options (lang_attr_of st [f] f original l) = field_options original
            \<and> default_attr (lang_attr_of st [f] f original l) = default_attr original
            \<and> name_attr (lang_attr_of st [f] f original l) = name_attr original"
      by (simp add: lang_attr_of_copy)
    from l have B: "lang_attr_name f (fst l) \<in> set ?names" by simp
    show "\<exists>n \<in> set ?names.
            get_real_fieldname active f (Some (fst l)) = Inr n
            \<and> map_of ?a3 n = Some (FieldAttr (lang_attr_of st [f] f original l))
            \<and> original_fieldname (lang_attr_of st [f] f original l) = Some f
            \<and> field_class (lang_attr_of st [f] f original l) = field_class original
            \<and> field_options (lang_attr_of st [f] f original l) = field_options original
            \<and> default_attr (lang_attr_of st [f] f original l) = default_attr original
            \<and> name_attr (lang_attr_of st [f] f original l) = name_attr original"
      by (rule bexI[where x="lang_attr_name f (fst l)"]) (rule A, rule B)
  qed
  have pr: "map_of ?a3 f = Some (PropertyAttr f)" by (simp add: map_of_round)
  have other: "map_of ?a3 n = map_of ?a1 n"
    if "n \<noteq> f" "n \<notin> set ?names" for n
  proof (rule map_of_round_other)
    from that(1) show "n \<noteq> f" .
    from that(2) show "\<forall>c \<in> fst ` set ?langs. lang_attr_name f c \<noteq> n"
      by auto
  qed
  have "''Meta'' \<notin> set ?names"
    by (auto simp: derived_name_not_Meta[symmetric])
  with other[of "''Meta''"] fM M1
  have mt: "map_of ?a3 ''Meta'' = Some (MetaAttr (AList.delete ''translate'' m))" by simp
  have rest: "\<forall>n. n \<noteq> f \<and> n \<noteq> ''Meta'' \<and> n \<notin> set ?names
             \<longrightarrow> map_of ?a3 n = map_of attrs n"
    using other by (simp add: update_conv')
  show ?thesis
    apply (rule exI[of _ "?a3"])
    apply (rule exI[of _ "?names"])
    apply (intro conjI)
            apply (rule eq)
           apply (rule dk)
          apply (rule nm)
         apply (rule ln)
        apply (rule dn)
       apply (rule gen)
      apply (rule pr)
     apply (rule mt)
    apply (rule rest)
    done
qed

theorem single_field_expansion_witness:
  "\<exists>attrs3.
     TransMeta_new (plain_new False) example_settings (Some ''en'') ''Article'' [] article_attrs =
       (case plain_new False ''Article'' [] attrs3 of
          Inl e \<Rightarrow> Inl e
        | Inr new_class \<Rightarrow>
            (case meta new_class of
               None \<Rightarrow> Inr new_class
             | Some opts \<Rightarrow>
                 Inr (new_class\<lparr>meta := Some (opts\<lparr>translatable_fields := Some [''title'']\<rparr>)\<rparr>)))
     \<and> get_real_fieldname_in_each_language example_settings (Some ''en'') ''title''
         = Inr [''title_en'', ''title_fr'']
     \<and> map_of attrs3 ''title_en''
         = Some (FieldAttr (lang_attr_of example_settings [''title''] ''title'' title_field
                              (''en'', ''English'')))
     \<and> map_of attrs3 ''title_fr''
         = Some (FieldAttr (lang_attr_of example_settings [''title''] ''title'' title_field
                              (''fr'', ''French'')))
     \<and> map_of attrs3 ''title'' = Some (PropertyAttr ''title'')"
proof -
  have 1: "map_of article_attrs ''Meta'' = Some (MetaAttr [(''translate'', MTuple [''title''])])"
    and 2: "map_of [(''translate'', MTuple [''title''])] ''translate'' = Some (MTuple [''title''])"
    and 3: "map_of [(''translate'', MTuple [''title''])] ''translate_mandatory'' = None"
    and 4: "map_of article_attrs ''title'' = Some (FieldAttr title_field)"
    and 5: "distinct (map fst (get_languages example_settings))"
    and 6: "get_languages example_settings = [(''en'', ''English''), (''fr'', ''French'')]"
    by (simp_all add: article_attrs_def get_languages_def example_settings_def)
  have 7: "get_real_fieldname_in_each_language example_settings (Some ''en'') ''title''
         = Inr [''title_en'', ''title_fr'']"
    by (simp add: get_real_fieldname_in_each_language_def 6 lang_attr_name_def)
  show ?thesis
    using single_field_expansion[OF 1 2 3 4 5, where super_new="plain_new False"
        and active="Some ''en''" and name="''Article''" and bases="[]"]
    unfolding 6 7
    apply (elim exE conjE)
    subgoal for attrs3 names
      apply (rule exI[of _ attrs3])
      apply (simp add: lang_attr_name_def)
      done
    done
qed

section \<open>The registry of translatable fields\<close>

text \<open>
  The claim C9 at a class that declares no tuple and has two abstract bases, each with the
  registry \<^verbatim>\<open>('title',)\<close>: its registry is \<^verbatim>\<open>('title', 'title')\<close>, with the name twice.
\<close>

theorem registry_not_deduplicated_counterexample:
  "\<not> declares subclass_attrs ''translate''
   \<and> \<not> declares subclass_attrs ''translate_mandatory''
   \<and> registry (Inr abstract_base) = Some [''title'']
   \<and> registry (Inr other_abstract_base) = Some [''title'']
   \<and> registry (TransMeta_new (plain_new False) example_settings (Some ''en'') ''Article''
                 [abstract_base, other_abstract_base] subclass_attrs)
       = Some [''title'', ''title'']
   \<and> \<not> distinct [''title'', ''title'']"
  by (simp add: eval_defs expand_languages_Inr plain_new_def example_settings_def subclass_attrs_def
        abstract_base_def other_abstract_base_def title_field_def declares_def registry_def)

text \<open>
  C9, amended. For every class that construction returns: when its \<^verbatim>\<open>Meta\<close> declares
  \<^verbatim>\<open>translate\<close> or \<^verbatim>\<open>translate_mandatory\<close> (and the class has \<^verbatim>\<open>_meta\<close>), its registry is
  the mandatory tuple followed by the fields tuple; when it declares neither, its registry
  is the concatenation, in the order of the bases, of the registries of those of its direct
  bases that have \<^verbatim>\<open>_meta\<close> with \<^verbatim>\<open>abstract\<close> true, names that occur twice staying twice;
  a direct base that is a concrete model or has no \<^verbatim>\<open>_meta\<close> contributes nothing: under
  the bases (concrete model with registry \<^verbatim>\<open>('body',)\<close>, abstract model with registry
  \<^verbatim>\<open>('title',)\<close>, class without \<^verbatim>\<open>_meta\<close>) the registry is \<^verbatim>\<open>('title',)\<close>. A class that
  declares neither tuple, under an abstract base built from \<^verbatim>\<open>translate = ('title',)\<close>,
  has the registry \<^verbatim>\<open>('title',)\<close>.
\<close>

theorem registry_of_constructed_class:
  assumes "TransMeta_new super_new st active name bases attrs = Inr cls"
  shows "(declares attrs ''translate'' \<or> declares attrs ''translate_mandatory'' \<longrightarrow>
            meta cls \<noteq> None \<longrightarrow>
            registry (Inr cls)
              = Some (declared_tuple attrs ''translate_mandatory'' @
                      declared_tuple attrs ''translate''))
     \<and> (\<not> declares attrs ''translate'' \<and> \<not> declares attrs ''translate_mandatory'' \<longrightarrow>
            registry (Inr cls)
              = Some (concat (map (\<lambda>b. case registry (Inr b) of None \<Rightarrow> [] | Some tf \<Rightarrow> tf)
                                (filter (\<lambda>b. case meta b of None \<Rightarrow> False
                                                  | Some m \<Rightarrow> abstract m) bases))))
     \<and> registry (TransMeta_new (plain_new False) example_settings (Some ''en'') ''Article''
                   [concrete_base, abstract_base, mixin_base] subclass_attrs)
         = Some [''title'']
     \<and> (case TransMeta_new (plain_new True) example_settings (Some ''en'') ''Base'' [] base_attrs of
           Inl e \<Rightarrow> None
         | Inr base \<Rightarrow>
             registry (TransMeta_new (plain_new False) example_settings (Some ''en'') ''Article''
                         [base] subclass_attrs))
         = Some [''title'']"
proof (intro conjI impI)
  assume d: "declares attrs ''translate'' \<or> declares attrs ''translate_mandatory''"
    and m: "meta cls \<noteq> None"
  from TransMeta_new_expand[OF d TransMeta_new_Inr_tuples[OF assms],
      where super_new=super_new and st=st and active=active and name=name and bases=bases]
  obtain attrs2 where
    eq: "TransMeta_new super_new st active name bases attrs =
       (case expand_fields st active (declared_tuple attrs ''translate'') name
               (declared_tuple attrs ''translate'' @ declared_tuple attrs ''translate_mandatory'')
               attrs2 of
          Inl e \<Rightarrow> Inl e
        | Inr attrs3 \<Rightarrow>
            (case super_new name bases attrs3 of
               Inl e \<Rightarrow> Inl e
             | Inr new_class \<Rightarrow>
                 (case meta new_class of
                    None \<Rightarrow> Inr new_class
                  | Some m \<Rightarrow>
                      Inr (new_class\<lparr>meta := Some (m\<lparr>translatable_fields :=
                             Some (declared_tuple attrs ''translate_mandatory'' @
                                   declared_tuple attrs ''translate'')\<rparr>)\<rparr>))))"
    by blast
  from assms eq m show "registry (Inr cls)
              = Some (declared_tuple attrs ''translate_mandatory'' @
                      declared_tuple attrs ''translate'')"
    by (auto simp: registry_def split: sum.splits option.splits)
next
  assume "\<not> declares attrs ''translate'' \<and> \<not> declares attrs ''translate_mandatory''"
  then have "TransMeta_new super_new st active name bases attrs =
     (case super_new name bases (OrderedDict attrs) of
        Inl e \<Rightarrow> Inl e
      | Inr new_class \<Rightarrow>
          (case meta new_class of
             None \<Rightarrow> Inl (AttributeError ''_meta'')
           | Some m \<Rightarrow>
               Inr (new_class\<lparr>meta := Some (m\<lparr>translatable_fields :=
                      Some (inherited_translatable_fields bases)\<rparr>)\<rparr>)))"
    by (intro TransMeta_new_inherit) simp_all
  with assms have "registry (Inr cls) = Some (inherited_translatable_fields bases)"
    by (auto simp: registry_def split: sum.splits option.splits)
  then show "registry (Inr cls)
              = Some (concat (map (\<lambda>b. case registry (Inr b) of None \<Rightarrow> [] | Some tf \<Rightarrow> tf)
                                (filter (\<lambda>b. case meta b of None \<Rightarrow> False
                                                  | Some m \<Rightarrow> abstract m) bases)))"
    by (simp only: inherited_translatable_fields_concat abstract_model_bases_def)
next
  show "registry (TransMeta_new (plain_new False) example_settings (Some ''en'') ''Article''
                   [concrete_base, abstract_base, mixin_base] subclass_attrs)
         = Some [''title'']"
    by (simp add: eval_defs expand_languages_Inr plain_new_def example_settings_def subclass_attrs_def
          concrete_base_def abstract_base_def mixin_base_def title_field_def registry_def)
next
  show "(case TransMeta_new (plain_new True) example_settings (Some ''en'') ''Base'' [] base_attrs of
           Inl e \<Rightarrow> None
         | Inr base \<Rightarrow>
             registry (TransMeta_new (plain_new False) example_settings (Some ''en'') ''Article''
                         [base] subclass_attrs))
         = Some [''title'']"
    by (simp add: eval_defs expand_languages_Inr plain_new_def example_settings_def base_attrs_def
          subclass_attrs_def title_field_def registry_def)
qed

theorem registry_of_constructed_class_witness:
  "declares base_attrs ''translate''
   \<and> registry (TransMeta_new (plain_new True) example_settings (Some ''en'') ''Base'' [] base_attrs)
       = Some [''title'']
   \<and> \<not> declares subclass_attrs ''translate'' \<and> \<not> declares subclass_attrs ''translate_mandatory''
   \<and> registry (Inr concrete_base) = Some [''body'']
   \<and> registry (Inr abstract_base) = Some [''title'']
   \<and> registry (Inr mixin_base) = None
   \<and> registry (TransMeta_new (plain_new False) example_settings (Some ''en'') ''Article''
                 [concrete_base, abstract_base, mixin_base] subclass_attrs)
       = Some [''title'']"
proof -
  have 1: "TransMeta_new (plain_new True) example_settings (Some ''en'') ''Base'' [] base_attrs
     = Inr \<lparr>class_attrs =
              [(''Meta'', MetaAttr [(''abstract'', MVal (PBool True))]),
               (''title_en'', FieldAttr (title_field\<lparr>null_attr := True, blank_attr := True,
                   verbose_name := Some (LazyString (Plain PNone) ''English''),
                   original_fieldname := Some ''title''\<rparr>)),
               (''title_fr'', FieldAttr (title_field\<lparr>
                   verbose_name := Some (LazyString (Plain PNone) ''French''),
                   original_fieldname := Some ''title''\<rparr>)),
               (''title'', PropertyAttr ''title'')],
            meta = Some \<lparr>abstract = True, translatable_fields = Some [''title'']\<rparr>\<rparr>"
    by (simp add: eval_defs expand_languages_Inr plain_new_def example_settings_def base_attrs_def
          subclass_attrs_def abstract_base_def concrete_base_def mixin_base_def title_field_def declares_def declared_tuple_def
          registry_def)
  have 2: "TransMeta_new (plain_new False) example_settings (Some ''en'') ''Article''
             [concrete_base, abstract_base, mixin_base] subclass_attrs
     = Inr \<lparr>class_attrs = [(''body'', FieldAttr title_field)],
            meta = Some \<lparr>abstract = False, translatable_fields = Some [''title'']\<rparr>\<rparr>"
    by (simp add: eval_defs expand_languages_Inr plain_new_def example_settings_def base_attrs_def
          subclass_attrs_def abstract_base_def concrete_base_def mixin_base_def title_field_def declares_def declared_tuple_def
          registry_def)
  have 3: "declares base_attrs ''translate''"
    and 4: "\<not> declares subclass_attrs ''translate''"
    and 5: "\<not> declares subclass_attrs ''translate_mandatory''"
    and 6: "declared_tuple base_attrs ''translate_mandatory'' @
            declared_tuple base_attrs ''translate'' = [''title'']"
    and 7: "concat (map (\<lambda>b. case registry (Inr b) of None \<Rightarrow> [] | Some tf \<Rightarrow> tf)
                     (filter (\<lambda>b. case meta b of None \<Rightarrow> False | Some m \<Rightarrow> abstract m)
                        [concrete_base, abstract_base, mixin_base])) = [''title'']"
    and 8: "registry (Inr concrete_base) = Some [''body'']"
    and 9: "registry (Inr abstract_base) = Some [''title'']"
    and 10: "registry (Inr mixin_base) = None"
    by (simp_all add: eval_defs expand_languages_Inr plain_new_def example_settings_def base_attrs_def
          subclass_attrs_def abstract_base_def concrete_base_def mixin_base_def title_field_def declares_def declared_tuple_def
          registry_def)
  from registry_of_constructed_class[OF 1] 3 6
  have a: "registry (TransMeta_new (plain_new True) example_settings (Some ''en'') ''Base'' []
                       base_attrs) = Some [''title'']"
    unfolding 1 by simp
  from registry_of_constructed_class[OF 2] 4 5 7
  have b: "registry (TransMeta_new (plain_new False) example_settings (Some ''en'') ''Article''
                       [concrete_base, abstract_base, mixin_base] subclass_attrs) = Some [''title'']"
    unfolding 2 by simp
  from a b 3 4 5 8 9 10 show ?thesis by simp
qed

end
